theory Spec2Isabelle
  imports Complex_Main "HOL-Library.Char_ord" "HOL-Library.List_Lexorder"
begin

section \<open>LUCI line fitting: a shallow embedding of \<open>LUCI/LuciFit.py\<close>\<close>

text \<open>
  The class \<open>Fit\<close> is modelled function by function. The instance \<open>self\<close> is the record
  \<open>session\<close>; the module-level variables \<open>bound_lower\<close>, \<open>bound_upper\<close> and the standard
  output are the record \<open>globals\<close>; a method that can raise returns \<open>error + result\<close>.

  numpy's floating-point numbers are idealised as real numbers. Where numpy would
  produce \<open>inf\<close> or \<open>nan\<close> (a division by zero) and carry on, the model stops with the
  error \<open>NonFinite\<close>, since the reals have no such values; every statement below is
  about runs whose values stay finite. The one exception is the rescaling of lines 474
  to 479: its loops are defined for any kind of number, and are also read on numpy's
  floats with \<open>inf\<close> and \<open>nan\<close>.
\<close>

subsection \<open>Errors\<close>

datatype error =
    NameError string
  | ValueError string
  | IndexError string
  | KeyError string
  | AttributeError string
  | TypeError string
  | ZeroDivisionError
  | LinAlgError
  | Exception string
  | NonFinite

definition bind_err :: "error + 'a \<Rightarrow> ('a \<Rightarrow> error + 'b) \<Rightarrow> error + 'b" where
  "bind_err m f = (case m of Inl e \<Rightarrow> Inl e | Inr x \<Rightarrow> f x)"

subsection \<open>The numpy and Python operations the class uses\<close>

text \<open>\<open>np.max\<close> of a one-dimensional array; the empty array raises.\<close>

definition np_max :: "real list \<Rightarrow> error + real" where
  "np_max xs = (case xs of
      [] \<Rightarrow> Inl (ValueError ''zero-size array to reduction operation maximum which has no identity'')
    | y # ys \<Rightarrow> Inr (fold max ys y))"

definition np_min :: "real list \<Rightarrow> error + real" where
  "np_min xs = (case xs of
      [] \<Rightarrow> Inl (ValueError ''zero-size array to reduction operation minimum which has no identity'')
    | y # ys \<Rightarrow> Inr (fold min ys y))"

text \<open>
  \<open>np.argmin\<close> and \<open>np.argmax\<close> return the first index of the extreme value. The scan
  keeps the best index and value so far and the index of the next element.
\<close>

fun argmin_scan :: "real list \<Rightarrow> nat \<Rightarrow> nat \<Rightarrow> real \<Rightarrow> nat" where
  "argmin_scan [] i b v = b"
| "argmin_scan (x # xs) i b v =
     (if x < v then argmin_scan xs (Suc i) i x else argmin_scan xs (Suc i) b v)"

definition np_argmin :: "real list \<Rightarrow> error + nat" where
  "np_argmin xs = (case xs of
      [] \<Rightarrow> Inl (ValueError ''attempt to get argmin of an empty sequence'')
    | y # ys \<Rightarrow> Inr (argmin_scan ys 1 0 y))"

fun argmax_scan :: "real list \<Rightarrow> nat \<Rightarrow> nat \<Rightarrow> real \<Rightarrow> nat" where
  "argmax_scan [] i b v = b"
| "argmax_scan (x # xs) i b v =
     (if v < x then argmax_scan xs (Suc i) i x else argmax_scan xs (Suc i) b v)"

definition np_argmax :: "real list \<Rightarrow> error + nat" where
  "np_argmax xs = (case xs of
      [] \<Rightarrow> Inl (ValueError ''attempt to get argmax of an empty sequence'')
    | y # ys \<Rightarrow> Inr (argmax_scan ys 1 0 y))"

text \<open>\<open>xs[lo:hi]\<close> for indices that are not negative: the slice is cut at the end of \<open>xs\<close>.\<close>

definition slice :: "'a list \<Rightarrow> nat \<Rightarrow> nat \<Rightarrow> 'a list" where
  "slice xs lo hi = take (hi - lo) (drop lo xs)"

text \<open>\<open>xs[i]\<close> for an index that is not negative.\<close>

definition getitem :: "'a list \<Rightarrow> nat \<Rightarrow> error + 'a" where
  "getitem xs i = (if i < length xs then Inr (xs ! i) else Inl (IndexError ''index out of bounds''))"

text \<open>\<open>np.unique\<close>: the distinct values, sorted.\<close>

definition np_unique :: "'a::linorder list \<Rightarrow> 'a list" where
  "np_unique xs = sort (remdups xs)"

text \<open>\<open>[i for i, e in enumerate(xs) if e == u]\<close>\<close>

definition indices_of :: "'a list \<Rightarrow> 'a \<Rightarrow> nat list" where
  "indices_of xs u = filter (\<lambda>i. xs ! i = u) [0..<length xs]"

text \<open>
  Elementwise arithmetic of two one-dimensional arrays, with numpy's broadcasting:
  equal lengths, or one of the two of length one.
\<close>

definition np_zip :: "(real \<Rightarrow> real \<Rightarrow> real) \<Rightarrow> real list \<Rightarrow> real list \<Rightarrow> error + real list" where
  "np_zip f xs ys =
     (if length xs = length ys then Inr (map2 f xs ys)
      else if length xs = 1 then Inr (map (f (hd xs)) ys)
      else if length ys = 1 then Inr (map (\<lambda>x. f x (hd ys)) xs)
      else Inl (ValueError ''operands could not be broadcast together''))"

text \<open>Division of an array by an array or a number; a zero divisor leaves the reals.\<close>

definition np_divide :: "real list \<Rightarrow> real list \<Rightarrow> error + real list" where
  "np_divide xs ys =
     bind_err (np_zip (/) xs ys)
       (\<lambda>zs. if list_ex (\<lambda>y. y = 0) ys \<and> xs \<noteq> [] then Inl NonFinite else Inr zs)"

definition divide_by :: "real list \<Rightarrow> real \<Rightarrow> error + real list" where
  "divide_by xs d = (if d = 0 \<and> xs \<noteq> [] then Inl NonFinite else Inr (map (\<lambda>x. x / d) xs))"

definition fdiv :: "real \<Rightarrow> real \<Rightarrow> error + real" where
  "fdiv a b = (if b = 0 then Inl NonFinite else Inr (a / b))"

subsection \<open>Constraints: dictionaries holding a closure\<close>

text \<open>
  The constraint builders append dictionaries \<open>{'type': ..., 'fun': lambda x: ...}\<close>. The
  lambda refers to the builder's local variables \<open>ind_0\<close> and \<open>ind_unique\<close>. A Python
  closure holds the variable, not the value it had when the lambda was created: when
  the solver calls the lambda, after the builder has returned, it reads what the
  variables hold then. So a closure is the lambda's body together with the builder's
  frame as it is at the return.
\<close>

record frame =
  ind_0 :: "nat option"
  ind_unique :: "nat option"

datatype lambda_body =
    Sigma_lambda  \<comment> \<open>\<open>lambda x: x[3*ind_0+2] - x[3*ind_unique+2]\<close>\<close>
  | Vel_lambda    \<comment> \<open>the lambda of \<open>vel_constraints\<close>\<close>
  | Multi_lambda  \<comment> \<open>\<open>lambda x: x[3*ind_unique+1] - x[3*ind_0+1] - 10\<close>\<close>

record constraint =
  ctype :: string
  cfun :: lambda_body
  cells :: frame

definition empty_frame :: frame where
  "empty_frame = \<lparr>ind_0 = None, ind_unique = None\<rparr>"

definition close_over :: "frame \<Rightarrow> (string \<times> lambda_body) list \<Rightarrow> constraint list" where
  "close_over fr ds = map (\<lambda>(t, b). \<lparr>ctype = t, cfun = b, cells = fr\<rparr>) ds"

text \<open>
  Calling the closure of a constraint on a parameter vector. In \<open>Vel_lambda\<close> the
  expression \<open>self.line_dict.values()[...]\<close> subscripts a dictionary view, which Python 3
  refuses, after \<open>x[3*ind_unique+1]\<close> has been read.
\<close>

definition call_fun :: "constraint \<Rightarrow> real list \<Rightarrow> error + real" where
  "call_fun c x =
     (case (ind_0 (cells c), ind_unique (cells c)) of
        (Some i0, Some iu) \<Rightarrow>
          (case cfun c of
             Sigma_lambda \<Rightarrow>
               bind_err (getitem x (3 * i0 + 2)) (\<lambda>a.
               bind_err (getitem x (3 * iu + 2)) (\<lambda>b. Inr (a - b)))
           | Vel_lambda \<Rightarrow>
               bind_err (getitem x (3 * iu + 1)) (\<lambda>a.
                 Inl (TypeError ''dict_values object is not subscriptable''))
           | Multi_lambda \<Rightarrow>
               bind_err (getitem x (3 * iu + 1)) (\<lambda>a.
               bind_err (getitem x (3 * i0 + 1)) (\<lambda>b. Inr (a - b - 10))))
      | _ \<Rightarrow> Inl (NameError ''free variable referenced before assignment in enclosing scope''))"

subsection \<open>The session (\<open>self\<close>), the module's globals and the collaborators\<close>

text \<open>
  The machine-learning model is a callable. Called on the reshaped spectrum it gives a
  tensor of predictions (\<open>Point velocity broadening\<close>) or a distribution with a mean and
  a standard deviation (\<open>Dist mean_vel mean_broad std_vel std_broad\<close>).
\<close>

datatype ml_output = Point real real | Dist real real real real

type_synonym ml_model = "real list \<Rightarrow> ml_output"

record session =
  spectrum :: "real list"
  spectrum_clean :: "real list"
  axis :: "real list"
  wavenumbers_syn :: "real list"
  model_type :: string
  lines :: "string list"
  line_num :: nat
  trans_filter :: "real list option"
  filter_name :: string
  spectrum_interpolated :: "real list"
  spectrum_normalized :: "real list"
  spectrum_interp_norm :: "real list"
  spectrum_restricted :: "real list"
  axis_restricted :: "real list"
  spectrum_restricted_norm :: "real list"
  theta :: real
  cos_theta :: real
  correction_factor :: real
  axis_step :: real
  delta_x :: real
  n_steps :: real
  zpd_index :: real
  noise :: real
  sigma_rel :: "int list"
  vel_rel :: "int list"
  ML_model :: "ml_model option"
  bayes_bool :: bool
  uncertainty_bool :: bool
  spectrum_scale :: real
  spectrum_interp_scale :: "real option"
  sinc_width :: real
  mdn :: bool
  vel_ml :: real
  broad_ml :: real
  vel_ml_sigma :: real
  broad_ml_sigma :: real
  fit_sol :: "real list"
  uncertainties :: "real list"
  A_min :: real
  A_max :: real
  x_min :: real
  x_max :: real
  sigma_min :: real
  sigma_max :: real
  inital_values :: "real list option"
  fit_vector :: "real list option"

text \<open>
  \<open>global bound_lower, bound_upper\<close>: two variables of the module, unbound until a
  supported filter assigns them; \<open>global model\<close>, which \<open>log_likelihood\<close> assigns; and
  what \<open>print\<close> has written.
\<close>

record globals =
  bound_lower :: "real option"
  bound_upper :: "real option"
  model :: "real list option"
  stdout :: "string list"

definition line_dict :: "(string \<times> real) list" where
  "line_dict =
     [(''Halpha'', 656.280), (''NII6583'', 658.341), (''NII6548'', 654.803),
      (''SII6716'', 671.647), (''SII6731'', 673.085), (''OII3726'', 372.603),
      (''OII3729'', 372.882), (''OIII4959'', 495.891), (''OIII5007'', 500.684),
      (''Hbeta'', 486.133)]"

definition available_functions :: "string list" where
  "available_functions = [''gaussian'', ''sinc'', ''sincgauss'']"

subsection \<open>The constraint builders\<close>

text \<open>
  The state of a builder's loops: its frame, the local \<open>expr_dict\<close> and the list it
  returns. The dictionaries in the list are closed over the frame at the return.
\<close>

record builder =
  fr :: frame
  expr_dict :: "(string \<times> lambda_body) option"
  dict_list :: "(string \<times> lambda_body) list"

definition new_builder :: builder where
  "new_builder = \<lparr>fr = empty_frame, expr_dict = None, dict_list = []\<rparr>"

text \<open>\<open>sigma_constraints\<close>, lines 375 to 389: the inner loop appends a dictionary.\<close>

fun sigma_inner :: "nat list \<Rightarrow> builder \<Rightarrow> builder" where
  "sigma_inner [] b = b"
| "sigma_inner (i # rest) b =
     sigma_inner rest
       (b\<lparr>fr := (fr b)\<lparr>ind_unique := Some i\<rparr>,
          dict_list := dict_list b @ [(''eq'', Sigma_lambda)]\<rparr>)"

fun sigma_outer :: "int list \<Rightarrow> int list \<Rightarrow> builder \<Rightarrow> builder" where
  "sigma_outer rel [] b = b"
| "sigma_outer rel (u # us) b =
     (let inds_unique = indices_of rel u in
      if length inds_unique > 1
      then sigma_outer rel us
             (sigma_inner (tl inds_unique) (b\<lparr>fr := (fr b)\<lparr>ind_0 := Some (hd inds_unique)\<rparr>\<rparr>))
      else sigma_outer rel us b)"

definition sigma_constraints :: "session \<Rightarrow> constraint list" where
  "sigma_constraints s =
     (let b = sigma_outer (sigma_rel s) (np_unique (sigma_rel s)) new_builder
      in close_over (fr b) (dict_list b))"

text \<open>
  \<open>vel_constraints\<close>, lines 391 to 407: the inner loop assigns the dictionary to
  \<open>expr_dict\<close> and appends nothing.
\<close>

fun vel_inner :: "nat list \<Rightarrow> builder \<Rightarrow> builder" where
  "vel_inner [] b = b"
| "vel_inner (i # rest) b =
     vel_inner rest
       (b\<lparr>fr := (fr b)\<lparr>ind_unique := Some i\<rparr>, expr_dict := Some (''eq'', Vel_lambda)\<rparr>)"

fun vel_outer :: "int list \<Rightarrow> int list \<Rightarrow> builder \<Rightarrow> builder" where
  "vel_outer rel [] b = b"
| "vel_outer rel (u # us) b =
     (let inds_unique = indices_of rel u in
      if length inds_unique > 1
      then vel_outer rel us
             (vel_inner (tl inds_unique) (b\<lparr>fr := (fr b)\<lparr>ind_0 := Some (hd inds_unique)\<rparr>\<rparr>))
      else vel_outer rel us b)"

definition vel_constraints :: "session \<Rightarrow> constraint list" where
  "vel_constraints s =
     (let b = vel_outer (vel_rel s) (np_unique (vel_rel s)) new_builder
      in close_over (fr b) (dict_list b))"

text \<open>
  \<open>multiple_component_vel_constraint\<close>, lines 410 to 426: the groups are the equal line
  names; the inner loop assigns \<open>expr_dict\<close> and appends nothing.
\<close>

fun multi_inner :: "nat list \<Rightarrow> builder \<Rightarrow> builder" where
  "multi_inner [] b = b"
| "multi_inner (i # rest) b =
     multi_inner rest
       (b\<lparr>fr := (fr b)\<lparr>ind_unique := Some i\<rparr>, expr_dict := Some (''ineq'', Multi_lambda)\<rparr>)"

fun multi_outer :: "string list \<Rightarrow> string list \<Rightarrow> builder \<Rightarrow> builder" where
  "multi_outer rel [] b = b"
| "multi_outer rel (u # us) b =
     (let inds_unique = indices_of rel u in
      if length inds_unique > 1
      then multi_outer rel us
             (multi_inner (tl inds_unique) (b\<lparr>fr := (fr b)\<lparr>ind_0 := Some (hd inds_unique)\<rparr>\<rparr>))
      else multi_outer rel us b)"

definition multiple_component_vel_constraint :: "session \<Rightarrow> constraint list" where
  "multiple_component_vel_constraint s =
     (let b = multi_outer (lines s) (np_unique (lines s)) new_builder
      in close_over (fr b) (dict_list b))"

subsection \<open>Running a method: the globals are threaded, an exception keeps them\<close>

type_synonym 'a run = "globals \<Rightarrow> (error + 'a) \<times> globals"

definition ret :: "'a \<Rightarrow> 'a run" where
  "ret x g = (Inr x, g)"

definition throw :: "error \<Rightarrow> 'a run" where
  "throw e g = (Inl e, g)"

definition lift :: "error + 'a \<Rightarrow> 'a run" where
  "lift m g = (m, g)"

definition bind_run :: "'a run \<Rightarrow> ('a \<Rightarrow> 'b run) \<Rightarrow> 'b run" where
  "bind_run m f g = (case m g of (Inl e, g') \<Rightarrow> (Inl e, g') | (Inr x, g') \<Rightarrow> f x g')"

definition print :: "string \<Rightarrow> unit run" where
  "print msg g = (Inr (), g\<lparr>stdout := stdout g @ [msg]\<rparr>)"

text \<open>A loop body that can raise, run over a list.\<close>

fun map_err :: "('a \<Rightarrow> error + 'b) \<Rightarrow> 'a list \<Rightarrow> error + 'b list" where
  "map_err f [] = Inr []"
| "map_err f (x # xs) =
     bind_err (f x) (\<lambda>y. bind_err (map_err f xs) (\<lambda>ys. Inr (y # ys)))"

fun fold_err :: "('a \<Rightarrow> 'b \<Rightarrow> error + 'b) \<Rightarrow> 'a list \<Rightarrow> 'b \<Rightarrow> error + 'b" where
  "fold_err f [] acc = Inr acc"
| "fold_err f (x # xs) acc = bind_err (f x acc) (\<lambda>acc'. fold_err f xs acc')"

text \<open>
  A numpy float as it is: a finite number (idealised as a real), \<open>inf\<close>, \<open>-inf\<close> or
  \<open>nan\<close>, with numpy's product. The methods are modelled on the finite numbers; this
  type is for the one place where a number that is not finite decides a property, the
  rescaling of the fit.
\<close>

datatype npfloat = Fin real | PInf | NInf | NaN

instantiation npfloat :: times
begin

fun times_npfloat :: "npfloat \<Rightarrow> npfloat \<Rightarrow> npfloat" where
  "Fin a * Fin b = Fin (a * b)"
| "NaN * y = NaN"
| "x * NaN = NaN"
| "Fin a * PInf = (if a = 0 then NaN else if 0 < a then PInf else NInf)"
| "Fin a * NInf = (if a = 0 then NaN else if 0 < a then NInf else PInf)"
| "PInf * Fin b = (if b = 0 then NaN else if 0 < b then PInf else NInf)"
| "NInf * Fin b = (if b = 0 then NaN else if 0 < b then NInf else PInf)"
| "PInf * PInf = PInf"
| "PInf * NInf = NInf"
| "NInf * PInf = NInf"
| "NInf * NInf = PInf"

instance ..

end

text \<open>
  \<open>xs[i] *= c\<close> and \<open>xs[-1] *= c\<close>, for any kind of number with a product; \<open>xs[-1]\<close>;
  \<open>xs[:-1]\<close>.
\<close>

definition scale_at :: "nat \<Rightarrow> 'a::times \<Rightarrow> 'a list \<Rightarrow> error + 'a list" where
  "scale_at i c xs =
     (if i < length xs then Inr (xs[i := xs ! i * c]) else Inl (IndexError ''index out of bounds''))"

definition scale_last :: "'a::times \<Rightarrow> 'a list \<Rightarrow> error + 'a list" where
  "scale_last c xs =
     (if xs = [] then Inl (IndexError ''index out of bounds'') else scale_at (length xs - 1) c xs)"

definition get_last :: "real list \<Rightarrow> error + real" where
  "get_last xs = (if xs = [] then Inl (IndexError ''index out of bounds'') else Inr (last xs))"

text \<open>Decimal digits of a number (\<open>%i\<close>) and the \<open>repr\<close> of a list of strings.\<close>

fun show_nat :: "nat \<Rightarrow> string" where
  "show_nat n =
     (if n < 10 then [''0123456789'' ! n] else show_nat (n div 10) @ [''0123456789'' ! (n mod 10)])"

fun join_quoted :: "string list \<Rightarrow> string" where
  "join_quoted [] = []"
| "join_quoted [x] = [CHR 0x27] @ x @ [CHR 0x27]"
| "join_quoted (x # y # ys) = [CHR 0x27] @ x @ [CHR 0x27] @ '', '' @ join_quoted (y # ys)"

definition repr_list :: "string list \<Rightarrow> string" where
  "repr_list xs = ''['' @ join_quoted xs @ '']''"

subsection \<open>Construction: \<open>__init__\<close> and the methods it calls\<close>

text \<open>\<open>apply_transmission\<close>, line 153.\<close>

definition apply_transmission :: "session \<Rightarrow> error + session" where
  "apply_transmission s =
     (case trans_filter s of
        None \<Rightarrow> Inl (TypeError ''NoneType object is not subscriptable'')
      | Some tf \<Rightarrow>
          bind_err
            (map_err (\<lambda>i. bind_err (getitem tf i)
                        (\<lambda>t. Inr (if t > 0.5 then spectrum s ! i / t else spectrum s ! i)))
               [0..<length (spectrum s)])
            (\<lambda>sp. Inr (s\<lparr>spectrum := sp\<rparr>)))"

text \<open>\<open>calculate_correction\<close>, lines 160 and 161.\<close>

definition calculate_correction :: "session \<Rightarrow> error + session" where
  "calculate_correction s =
     bind_err (fdiv 1 (cos_theta s)) (\<lambda>cf.
     bind_err (fdiv cf (2 * delta_x s * (n_steps s - zpd_index s))) (\<lambda>q.
       Inr (s\<lparr>correction_factor := cf, axis_step := q * 10000000\<rparr>)))"

text \<open>\<open>calc_sinc_width\<close>, lines 170 and 171.\<close>

definition calc_sinc_width :: "session \<Rightarrow> error + session" where
  "calc_sinc_width s =
     (let MPD = cos_theta s * delta_x s * (n_steps s - zpd_index s) / 10000000 in
      bind_err (fdiv 1 (2 * MPD)) (\<lambda>w. Inr (s\<lparr>sinc_width := w\<rparr>)))"

definition unsupported_message :: string where
  "unsupported_message =
     ''The filter of your datacube is not supported by LUCI. We only support SN1, SN2, and SN3 at the moment.''"

definition set_bounds :: "real \<Rightarrow> real \<Rightarrow> unit run" where
  "set_bounds lo hi g = (Inr (), g\<lparr>bound_lower := Some lo, bound_upper := Some hi\<rparr>)"

definition read_bound_lower :: "real run" where
  "read_bound_lower g =
     (case bound_lower g of
        None \<Rightarrow> (Inl (NameError ''name 'bound_lower' is not defined''), g)
      | Some b \<Rightarrow> (Inr b, g))"

definition read_bound_upper :: "real run" where
  "read_bound_upper g =
     (case bound_upper g of
        None \<Rightarrow> (Inl (NameError ''name 'bound_upper' is not defined''), g)
      | Some b \<Rightarrow> (Inr b, g))"

text \<open>\<open>np.argmin(np.abs(np.array(self.axis) - bound))\<close>\<close>

definition nearest_index :: "real list \<Rightarrow> real \<Rightarrow> error + nat" where
  "nearest_index ax b = np_argmin (map (\<lambda>a. \<bar>a - b\<bar>) ax)"

text \<open>\<open>restrict_wavelength\<close>, lines 174 to 201.\<close>

definition restrict_wavelength :: "session \<Rightarrow> ((nat \<times> nat) \<times> session) run" where
  "restrict_wavelength s =
     bind_run
       (if filter_name s = ''SN3'' then set_bounds 14500 15400
        else if filter_name s = ''SN2'' then set_bounds 19500 20750
        else if filter_name s = ''SN1'' then set_bounds 26000 27400
        else if filter_name s = ''C4'' \<and> ''Halpha'' \<in> set (lines s) then set_bounds 14500 15400
        else print unsupported_message)
       (\<lambda>_. bind_run read_bound_lower
       (\<lambda>bl. bind_run (lift (nearest_index (axis s) bl))
       (\<lambda>min_idx. bind_run read_bound_upper
       (\<lambda>bu. bind_run (lift (nearest_index (axis s) bu))
       (\<lambda>max_idx. ret ((min_idx, max_idx),
                  s\<lparr>spectrum_restricted := slice (spectrum_normalized s) min_idx max_idx,
                    axis_restricted := slice (axis s) min_idx max_idx\<rparr>))))))"


text \<open>\<open>np.nanstd\<close> of an array of reals; the empty array gives \<open>nan\<close>.\<close>

definition np_mean :: "real list \<Rightarrow> real" where
  "np_mean xs = sum_list xs / real (length xs)"

definition np_std :: "real list \<Rightarrow> error + real" where
  "np_std xs =
     (if xs = [] then Inl NonFinite
      else Inr (sqrt (np_mean (map (\<lambda>x. (x - np_mean xs)\<^sup>2) xs))))"

text \<open>\<open>calculate_noise\<close>, lines 204 to 233.\<close>

definition calculate_noise :: "session \<Rightarrow> session run" where
  "calculate_noise s =
     bind_run
       (if filter_name s = ''SN3'' then set_bounds 14300 14500
        else if filter_name s = ''SN2'' then set_bounds 18600 19000
        else if filter_name s = ''SN1'' then set_bounds 25300 25700
        else if filter_name s = ''C4'' \<and> ''Halpha'' \<in> set (lines s) then set_bounds 14300 14500
        else print unsupported_message)
       (\<lambda>_. bind_run read_bound_lower
       (\<lambda>bl. bind_run (lift (nearest_index (axis s) bl))
       (\<lambda>min_idx. bind_run read_bound_upper
       (\<lambda>bu. bind_run (lift (nearest_index (axis s) bu))
       (\<lambda>max_idx. bind_run (lift (np_std (slice (spectrum_clean s) min_idx max_idx)))
       (\<lambda>sd. ret (s\<lparr>noise := sd\<rparr>)))))))"

text \<open>\<open>check_lines\<close>, \<open>check_fitting_model\<close> and \<open>check_lengths\<close>, lines 630 to 671.\<close>

definition check_lines :: "session \<Rightarrow> error + unit" where
  "check_lines s =
     (if set (lines s) \<subseteq> set (map fst line_dict) then Inr ()
      else Inl (Exception (''Please submit a line name in the available list: '' @ [CHR 0x0A]
                  @ '' dict_keys('' @ repr_list (map fst line_dict) @ '')'')))"

definition check_fitting_model :: "session \<Rightarrow> error + unit" where
  "check_fitting_model s =
     (if model_type s \<in> set available_functions then Inr ()
      else Inl (Exception (''Please submit a fitting function name in the available list: ''
                  @ [CHR 0x0A] @ '' '' @ repr_list available_functions)))"

definition check_lengths :: "session \<Rightarrow> error + unit" where
  "check_lengths s =
     (if length (vel_rel s) \<noteq> length (lines s) then
        Inl (Exception (''The argument vel_rel has '' @ show_nat (length (vel_rel s))
               @ '' arguments, but it should have '' @ show_nat (length (lines s)) @ '' arguments''))
      else if length (sigma_rel s) \<noteq> length (lines s) then
        Inl (Exception (''The argument sigma_rel has '' @ show_nat (length (sigma_rel s))
               @ '' arguments, but it should have '' @ show_nat (length (lines s)) @ '' arguments''))
      else Inr ())"

text \<open>The arguments of \<open>__init__\<close>, line 53.\<close>

record init_args =
  arg_spectrum :: "real list"
  arg_axis :: "real list"
  arg_wavenumbers_syn :: "real list"
  arg_model_type :: string
  arg_lines :: "string list"
  arg_vel_rel :: "int list"
  arg_sigma_rel :: "int list"
  arg_ML_model :: "ml_model option"
  arg_trans_filter :: "real list option"
  arg_theta :: real
  arg_delta_x :: real
  arg_n_steps :: real
  arg_zpd_index :: real
  arg_filter :: string
  arg_bayes_bool :: bool
  arg_uncertainty_bool :: bool
  arg_mdn :: bool

text \<open>
  An instance before \<open>__init__\<close> has assigned anything. An attribute holds a placeholder
  until its assignment; no method that \<open>__init__\<close> calls reads an attribute before the
  line that assigns it.
\<close>

definition blank :: session where
  "blank = \<lparr>spectrum = [], spectrum_clean = [], axis = [], wavenumbers_syn = [],
     model_type = [], lines = [], line_num = 0, trans_filter = None, filter_name = [],
     spectrum_interpolated = [], spectrum_normalized = [], spectrum_interp_norm = [],
     spectrum_restricted = [], axis_restricted = [], spectrum_restricted_norm = [],
     theta = 0, cos_theta = 0, correction_factor = 0, axis_step = 0, delta_x = 0,
     n_steps = 0, zpd_index = 0, noise = 0, sigma_rel = [], vel_rel = [], ML_model = None,
     bayes_bool = False, uncertainty_bool = False, spectrum_scale = 0,
     spectrum_interp_scale = None, sinc_width = 0, mdn = False, vel_ml = 0, broad_ml = 0,
     vel_ml_sigma = 0, broad_ml_sigma = 0, fit_sol = [], uncertainties = [],
     A_min = 0, A_max = 0, x_min = 0, x_max = 0, sigma_min = 0, sigma_max = 0,
     inital_values = None, fit_vector = None\<rparr>"

definition zeros_like :: "real list \<Rightarrow> real list" where
  "zeros_like xs = replicate (length xs) 0"

text \<open>\<open>xs / np.max(xs)\<close>\<close>

definition normalize :: "real list \<Rightarrow> error + real list" where
  "normalize xs = bind_err (np_max xs) (\<lambda>m. divide_by xs m)"

text \<open>\<open>__init__\<close>, lines 78 to 98: up to the first call of \<open>restrict_wavelength\<close>.\<close>

definition init_spectra :: "init_args \<Rightarrow> error + session" where
  "init_spectra a =
     bind_err (normalize (arg_spectrum a)) (\<lambda>clean.
     bind_err
       (let s1 = blank\<lparr>spectrum := arg_spectrum a, spectrum_clean := clean, axis := arg_axis a,
                   wavenumbers_syn := arg_wavenumbers_syn a, model_type := arg_model_type a,
                   lines := arg_lines a, line_num := length (arg_lines a),
                   trans_filter := arg_trans_filter a\<rparr>
        in if trans_filter s1 \<noteq> None then apply_transmission s1 else Inr s1) (\<lambda>s2.
     bind_err (normalize (spectrum s2)) (\<lambda>normalized.
       Inr (s2\<lparr>filter_name := arg_filter a,
               spectrum_interpolated := zeros_like (spectrum s2),
               spectrum_normalized := normalized,
               spectrum_interp_norm := zeros_like (spectrum s2)\<rparr>))))"

text \<open>Lines 100 to 110: the normalised window, the angle and the correction factor.\<close>

definition init_geometry :: "init_args \<Rightarrow> session \<Rightarrow> error + session" where
  "init_geometry a s =
     bind_err (normalize (spectrum_restricted s)) (\<lambda>rn.
       calculate_correction
         (s\<lparr>spectrum_restricted_norm := rn, theta := arg_theta a,
            cos_theta := \<bar>cos (arg_theta a * pi / 180)\<bar>,
            correction_factor := 1, axis_step := 0, delta_x := arg_delta_x a,
            n_steps := arg_n_steps a, zpd_index := arg_zpd_index a\<rparr>))"

text \<open>Lines 116 to 138: the remaining attributes.\<close>

definition init_rest :: "init_args \<Rightarrow> session \<Rightarrow> error + session" where
  "init_rest a s =
     bind_err
       (calc_sinc_width
          (s\<lparr>sigma_rel := arg_sigma_rel a, vel_rel := arg_vel_rel a, ML_model := arg_ML_model a,
             bayes_bool := arg_bayes_bool a, uncertainty_bool := arg_uncertainty_bool a,
             spectrum_scale := 0, sinc_width := 0\<rparr>)) (\<lambda>s'.
       Inr (s'\<lparr>mdn := arg_mdn a, vel_ml := 0, broad_ml := 0, vel_ml_sigma := 0,
               broad_ml_sigma := 0,
               fit_sol := replicate (3 * line_num s' + 1) 0,
               uncertainties := replicate (3 * line_num s' + 1) 0,
               A_min := - 0.5, A_max := 1.1, x_min := 0, x_max := 1000000,
               sigma_min := 0.001, sigma_max := 300\<rparr>))"

text \<open>Lines 140 to 142: the three checks, in this order.\<close>

definition init_checks :: "session \<Rightarrow> error + session" where
  "init_checks s =
     bind_err (check_lines s) (\<lambda>_.
     bind_err (check_fitting_model s) (\<lambda>_.
     bind_err (check_lengths s) (\<lambda>_. Inr s)))"

text \<open>\<open>__init__\<close>: a session, or the exception that ends the construction.\<close>

definition Fit_init :: "init_args \<Rightarrow> session run" where
  "Fit_init a =
     bind_run (lift (init_spectra a)) (\<lambda>s1.
     bind_run (restrict_wavelength s1) (\<lambda>(_, s2).
     bind_run (lift (init_geometry a s2)) (\<lambda>s3.
     bind_run (calculate_noise (s3\<lparr>noise := 0.01\<rparr>)) (\<lambda>s4.
     bind_run (lift (init_rest a s4)) (\<lambda>s5.
     lift (init_checks s5))))))"

subsection \<open>The collaborators\<close>

text \<open>
  Code outside this file is a parameter of the model: scipy's interpolation, minimiser
  and bounds, numdifftools' Hessian, numpy's matrix inverse and random numbers, astropy's
  sigma clipping, emcee's sampler, and the repository's own \<open>LuciFunctions\<close> (the line
  shapes), \<open>LuciFitParameters\<close> (the physical quantities) and \<open>LuciBayesian\<close> (the
  posterior, used by the sampler). The objective handed to the minimiser and to the
  Hessian is a method of the session, so it runs on the globals.
\<close>

type_synonym mcmc_args =
  "real list \<times> real list \<times> real \<times> string \<times> nat \<times> real \<times> real list"

record collab =
  interp1d :: "real list \<Rightarrow> real list \<Rightarrow> real list \<Rightarrow> error + real list"
  sigma_clip :: "real list \<Rightarrow> real \<Rightarrow> real list"
  gaussian_evaluate :: "real list \<Rightarrow> real list \<Rightarrow> nat \<Rightarrow> error + real list"
  sinc_evaluate :: "real list \<Rightarrow> real list \<Rightarrow> nat \<Rightarrow> real \<Rightarrow> error + real list"
  sincgauss_evaluate :: "real list \<Rightarrow> real list \<Rightarrow> nat \<Rightarrow> real \<Rightarrow> error + real list"
  gaussian_plot :: "real list \<Rightarrow> real list \<Rightarrow> nat \<Rightarrow> error + real list"
  sinc_plot :: "real list \<Rightarrow> real list \<Rightarrow> nat \<Rightarrow> real \<Rightarrow> error + real list"
  sincgauss_plot :: "real list \<Rightarrow> real list \<Rightarrow> nat \<Rightarrow> real \<Rightarrow> error + real list"
  minimize :: "(real list \<Rightarrow> real run) \<Rightarrow> real list \<Rightarrow> real list \<times> real list
                 \<Rightarrow> constraint list \<Rightarrow> real list run"
  hessian :: "(real list \<Rightarrow> real run) \<Rightarrow> real list \<Rightarrow> real list list run"
  linalg_inv :: "real list list \<Rightarrow> error + real list list"
  randn :: "nat \<Rightarrow> nat \<Rightarrow> real list list"
  run_mcmc :: "nat \<Rightarrow> nat \<Rightarrow> mcmc_args \<Rightarrow> real list list \<Rightarrow> error + real list list"
  calculate_flux :: "real \<Rightarrow> real \<Rightarrow> string \<Rightarrow> real \<Rightarrow> error + real"
  calculate_vel :: "nat \<Rightarrow> string list \<Rightarrow> real list \<Rightarrow> (string \<times> real) list \<Rightarrow> error + real"
  calculate_broad :: "nat \<Rightarrow> real list \<Rightarrow> real \<Rightarrow> error + real"
  calculate_vel_err :: "nat \<Rightarrow> string list \<Rightarrow> real list \<Rightarrow> (string \<times> real) list
                          \<Rightarrow> real list \<Rightarrow> error + real"
  calculate_broad_err :: "nat \<Rightarrow> real list \<Rightarrow> real \<Rightarrow> real list \<Rightarrow> error + real"
  calculate_flux_err :: "nat \<Rightarrow> real list \<Rightarrow> real list \<Rightarrow> string \<Rightarrow> real \<Rightarrow> error + real"

subsection \<open>Priors and initial values\<close>

text \<open>\<open>estimate_priors_ML\<close>, lines 247 to 262.\<close>

definition estimate_priors_ML :: "session \<Rightarrow> error + session" where
  "estimate_priors_ML s =
     (case ML_model s of
        None \<Rightarrow> Inl (TypeError ''NoneType object is not callable'')
      | Some m \<Rightarrow>
          if mdn s then
            (case m (spectrum_interp_norm s) of
               Dist mv mb sv sb \<Rightarrow>
                 Inr (s\<lparr>vel_ml := mv, vel_ml_sigma := sv, broad_ml := mb, broad_ml_sigma := sb\<rparr>)
             | Point v b \<Rightarrow> Inl (AttributeError ''mean''))
          else
            (case m (spectrum_interp_norm s) of
               Point v b \<Rightarrow>
                 Inr (s\<lparr>vel_ml := v, vel_ml_sigma := 0, broad_ml := b, broad_ml_sigma := 0\<rparr>)
             | Dist mv mb sv sb \<Rightarrow> Inl (TypeError ''object is not subscriptable'')))"

text \<open>\<open>interpolate_spectrum\<close>, lines 274 to 279.\<close>

definition interpolate_spectrum :: "collab \<Rightarrow> session \<Rightarrow> error + session" where
  "interpolate_spectrum C s =
     bind_err (np_max (spectrum s)) (\<lambda>sc.
     bind_err (interp1d C (axis s) (spectrum s) (wavenumbers_syn s)) (\<lambda>sp.
     bind_err (np_max sp) (\<lambda>isc.
     bind_err (divide_by sp isc) (\<lambda>nrm.
       Inr (s\<lparr>spectrum_scale := sc, spectrum_interpolated := sp,
              spectrum_interp_scale := Some isc, spectrum_interp_norm := nrm\<rparr>)))))"

text \<open>\<open>xs[i]\<close> for any integer: a negative index counts from the end.\<close>

definition getitem_int :: "'a list \<Rightarrow> int \<Rightarrow> error + 'a" where
  "getitem_int xs i =
     (if 0 \<le> i \<and> i < int (length xs) then Inr (xs ! nat i)
      else if i < 0 \<and> - int (length xs) \<le> i then Inr (xs ! nat (int (length xs) + i))
      else Inl (IndexError ''index out of bounds''))"

text \<open>Division of Python floats: a zero divisor raises.\<close>

definition pydiv :: "real \<Rightarrow> real \<Rightarrow> error + real" where
  "pydiv a b = (if b = 0 then Inl ZeroDivisionError else Inr (a / b))"

text \<open>
  Lines 295 to 300 of \<open>line_vals_estimate\<close>: without a machine-learning model (or with an
  empty model type) the velocity comes from the highest sample of the normalised
  spectrum and the broadening is 10; otherwise both are left as they are.
\<close>

definition analytic_prior :: "session \<Rightarrow> real \<Rightarrow> error + session" where
  "analytic_prior s line_theo =
     (if ML_model s = None \<or> model_type s = [] then
        bind_err (np_argmax (spectrum_normalized s)) (\<lambda>max_flux.
        bind_err (getitem (axis s) max_flux) (\<lambda>a.
        bind_err (fdiv 10000000 a) (\<lambda>lam.
          Inr (s\<lparr>vel_ml := \<bar>300000 * ((lam - line_theo) / line_theo)\<bar>, broad_ml := 10\<rparr>))))
      else Inr s)"

text \<open>Lines 303 to 311: the highest of nine samples around the line, or the sample itself.\<close>

definition amp_estimate :: "real list \<Rightarrow> nat \<Rightarrow> error + real" where
  "amp_estimate sp line_ind =
     (case bind_err (map_err (\<lambda>k. getitem_int sp (int line_ind + k)) [- 4, - 3, - 2, - 1, 0, 1, 2, 3, 4])
             np_max of
        Inr v \<Rightarrow> Inr v
      | Inl e \<Rightarrow> getitem sp line_ind)"

text \<open>
  Lines 313 to 318: with the distribution of the machine-learning model, the bounds of
  the position and of the width are narrowed to three standard deviations.
\<close>

definition mdn_bounds :: "session \<Rightarrow> real \<Rightarrow> real \<Rightarrow> error + session" where
  "mdn_bounds s line_theo line_pos_est =
     (if mdn s then
        bind_err (pydiv 10000000
                    (((vel_ml s + 3 * vel_ml_sigma s) / 300000) * line_theo + line_theo)) (\<lambda>xmin.
        bind_err (pydiv 10000000
                    (((vel_ml s - 3 * vel_ml_sigma s) / 300000) * line_theo + line_theo)) (\<lambda>xmax.
          Inr (s\<lparr>x_min := xmin, x_max := xmax,
                 sigma_min := (line_pos_est * broad_ml s) / 300000
                                - 3 * (line_pos_est * broad_ml_sigma s) / 300000,
                 sigma_max := (line_pos_est * broad_ml s) / 300000
                                + 3 * (line_pos_est * broad_ml_sigma s) / 300000\<rparr>)))
      else Inr s)"

text \<open>\<open>line_vals_estimate\<close>, lines 281 to 319.\<close>

definition line_vals_estimate :: "session \<Rightarrow> string \<Rightarrow> error + ((real \<times> real \<times> real) \<times> session)" where
  "line_vals_estimate s line_name =
     (case map_of line_dict line_name of
        None \<Rightarrow> Inl (KeyError line_name)
      | Some line_theo \<Rightarrow>
          bind_err (analytic_prior s line_theo) (\<lambda>s1.
          bind_err (pydiv 10000000 ((vel_ml s1 / 300000) * line_theo + line_theo)) (\<lambda>line_pos_est.
          bind_err (nearest_index (axis s1) line_pos_est) (\<lambda>line_ind.
          bind_err (amp_estimate (spectrum_normalized s1) line_ind) (\<lambda>line_amp_est.
          bind_err (mdn_bounds s1 line_theo line_pos_est) (\<lambda>s2.
            Inr ((line_amp_est, line_pos_est, (line_pos_est * broad_ml s1) / 300000), s2)))))))"

text \<open>\<open>cont_estimate\<close>, lines 339 to 342.\<close>

definition cont_estimate :: "collab \<Rightarrow> session \<Rightarrow> real \<Rightarrow> error + real" where
  "cont_estimate C s sigma_level = np_min (sigma_clip C (spectrum_restricted s) sigma_level)"

subsection \<open>The likelihood and the optimisation\<close>

definition set_model :: "real list \<Rightarrow> unit run" where
  "set_model m g = (Inr (), g\<lparr>model := Some m\<rparr>)"

definition read_model :: "real list run" where
  "read_model g =
     (case model g of
        None \<Rightarrow> (Inl (NameError ''name 'model' is not defined''), g)
      | Some m \<Rightarrow> (Inr m, g))"

text \<open>\<open>log_likelihood\<close>, lines 359 to 369.\<close>

definition log_likelihood :: "collab \<Rightarrow> session \<Rightarrow> real list \<Rightarrow> real run" where
  "log_likelihood C s th =
     bind_run
       (if model_type s = ''gaussian'' then
          bind_run (lift (gaussian_evaluate C (axis_restricted s) th (line_num s))) set_model
        else if model_type s = ''sinc'' then
          bind_run (lift (sinc_evaluate C (axis_restricted s) th (line_num s) (sinc_width s))) set_model
        else if model_type s = ''sincgauss'' then
          bind_run (lift (sincgauss_evaluate C (axis_restricted s) th (line_num s) (sinc_width s)))
            set_model
        else ret ())
       (\<lambda>_. bind_run read_model
       (\<lambda>m. bind_run (lift (get_last th))
       (\<lambda>c. bind_run (set_model (map (\<lambda>v. v + c) m))
       (\<lambda>_. bind_run (lift (np_zip (-) (spectrum_restricted s) (map (\<lambda>v. v + c) m)))
       (\<lambda>d. let sigma2 = (noise s)\<^sup>2 in
             if sigma2 = 0 then throw NonFinite
             else ret (- 0.5 * sum_list (map (\<lambda>r. r\<^sup>2 / sigma2 + ln (2 * pi * sigma2)) d)))))))"

definition nll :: "collab \<Rightarrow> session \<Rightarrow> real list \<Rightarrow> real run" where
  "nll C s th = bind_run (log_likelihood C s th) (\<lambda>v. ret (- v))"

text \<open>\<open>xs[i] = v\<close> for an index that is not negative, and \<open>xs[-1] = v\<close>.\<close>

definition setitem :: "nat \<Rightarrow> real \<Rightarrow> real list \<Rightarrow> error + real list" where
  "setitem i v xs =
     (if i < length xs then Inr (xs[i := v]) else Inl (IndexError ''index out of bounds''))"

definition set_last :: "real \<Rightarrow> real list \<Rightarrow> error + real list" where
  "set_last v xs =
     (if xs = [] then Inl (IndexError ''index out of bounds'') else setitem (length xs - 1) v xs)"

text \<open>
  The body of the loop of lines 443 to 451, on the initial vector, the list \<open>bounds_\<close>
  and the session.
\<close>

definition initial_step ::
  "nat \<Rightarrow> real list \<times> (real \<times> real) list \<times> session
     \<Rightarrow> error + (real list \<times> (real \<times> real) list \<times> session)" where
  "initial_step mod' st =
     (case st of (initial, bounds', s) \<Rightarrow>
        bind_err (getitem (lines s) mod') (\<lambda>name.
        bind_err (line_vals_estimate s name) (\<lambda>((amp_est, vel_est, sigma_est), s').
        bind_err (get_last initial) (\<lambda>cont.
        bind_err (setitem (3 * mod') (amp_est - cont) initial) (\<lambda>i1.
        bind_err (setitem (3 * mod' + 1) vel_est i1) (\<lambda>i2.
        bind_err (setitem (3 * mod' + 2) sigma_est i2) (\<lambda>i3.
          Inr (i3,
               bounds' @ [(A_min s', A_max s'), (x_min s', x_max s'), (sigma_min s', sigma_max s')],
               s'))))))))"

text \<open>The constraints handed to the minimiser, lines 456 to 459.\<close>

definition cons :: "session \<Rightarrow> constraint list" where
  "cons s = sigma_constraints s @ vel_constraints s"

text \<open>Lines 464 to 472: the uncertainties from the Hessian; a singular matrix gives zeros.\<close>

definition diagonal :: "real list list \<Rightarrow> real list" where
  "diagonal m = map (\<lambda>i. m ! i ! i) [0..<min (length m) (case m of [] \<Rightarrow> 0 | r # _ \<Rightarrow> length r)]"

definition hessian_uncertainties :: "collab \<Rightarrow> session \<Rightarrow> real list \<Rightarrow> real list run" where
  "hessian_uncertainties C s parameters g =
     (case hessian C (nll C s) parameters g of
        (Inl LinAlgError, g') \<Rightarrow> (Inr (zeros_like parameters), g')
      | (Inl e, g') \<Rightarrow> (Inl e, g')
      | (Inr hessian_calc, g') \<Rightarrow>
          (case linalg_inv C hessian_calc of
             Inl LinAlgError \<Rightarrow> (Inr (zeros_like parameters), g')
           | Inl e \<Rightarrow> (Inl e, g')
           | Inr hinv \<Rightarrow> (Inr (map (\<lambda>v. sqrt \<bar>v\<bar>) (diagonal (map (map uminus) hinv))), g')))"

text \<open>
  Lines 474 to 479: amplitudes and continuum back on the scale of the spectrum. The
  loops are the same for any kind of number; \<open>calculate_params\<close> runs them on reals.
\<close>

definition unscale_step ::
  "'a::times \<Rightarrow> nat \<Rightarrow> 'a list \<times> 'a list \<Rightarrow> error + ('a list \<times> 'a list)" where
  "unscale_step sc i st =
     (case st of (parameters, unc) \<Rightarrow>
        bind_err (scale_at (i * 3) sc parameters) (\<lambda>p.
        bind_err (scale_at (i * 3) sc unc) (\<lambda>u. Inr (p, u))))"

definition unscale ::
  "nat \<Rightarrow> 'a::times \<Rightarrow> 'a list \<times> 'a list \<Rightarrow> error + ('a list \<times> 'a list)" where
  "unscale n sc st =
     bind_err (fold_err (unscale_step sc) [0..<n] st) (\<lambda>(p, u).
     bind_err (scale_last sc p) (\<lambda>p'.
     bind_err (scale_last sc u) (\<lambda>u'. Inr (p', u'))))"

text \<open>Lines 481 to 486, and 600 to 605: the model curve over the whole axis.\<close>

definition butlast_slice :: "real list \<Rightarrow> real list" where
  "butlast_slice xs = butlast xs"

definition set_fit_vector :: "collab \<Rightarrow> session \<Rightarrow> error + session" where
  "set_fit_vector C s =
     (if model_type s = ''gaussian'' then
        bind_err (gaussian_plot C (axis s) (butlast_slice (fit_sol s)) (line_num s)) (\<lambda>vs.
        bind_err (get_last (fit_sol s)) (\<lambda>c.
          Inr (s\<lparr>fit_vector := Some (map (\<lambda>v. v + c) vs)\<rparr>)))
      else if model_type s = ''sinc'' then
        bind_err (sinc_plot C (axis s) (butlast_slice (fit_sol s)) (line_num s) (sinc_width s)) (\<lambda>vs.
        bind_err (get_last (fit_sol s)) (\<lambda>c.
          Inr (s\<lparr>fit_vector := Some (map (\<lambda>v. v + c) vs)\<rparr>)))
      else if model_type s = ''sincgauss'' then
        bind_err (sincgauss_plot C (axis s) (butlast_slice (fit_sol s)) (line_num s) (sinc_width s))
          (\<lambda>vs.
        bind_err (get_last (fit_sol s)) (\<lambda>c.
          Inr (s\<lparr>fit_vector := Some (map (\<lambda>v. v + c) vs)\<rparr>)))
      else Inr s)"

text \<open>\<open>calculate_params\<close>, lines 429 to 488.\<close>

definition calculate_params :: "collab \<Rightarrow> session \<Rightarrow> session run" where
  "calculate_params C s =
     bind_run (lift (cont_estimate C s 2)) (\<lambda>cont.
     bind_run (lift (set_last cont (replicate (3 * line_num s + 1) 1))) (\<lambda>initial0.
     bind_run (lift (fold_err initial_step [0..<line_num s] (initial0, [], s)))
       (\<lambda>(initial, bounds', s1).
     let bounds = (map fst bounds' @ [0], map snd bounds' @ [0.75]);
         s2 = s1\<lparr>inital_values := Some initial\<rparr>
     in
     bind_run (minimize C (nll C s2) initial bounds (cons s2)) (\<lambda>parameters.
     bind_run (if uncertainty_bool s2
               then bind_run (hessian_uncertainties C s2 parameters)
                      (\<lambda>u. ret (s2\<lparr>uncertainties := u\<rparr>))
               else ret s2) (\<lambda>s3.
     bind_run (lift (unscale (line_num s3) (spectrum_scale s3) (parameters, uncertainties s3)))
       (\<lambda>(p, u).
     lift (set_fit_vector C (s3\<lparr>uncertainties := u, fit_sol := p\<rparr>))))))))"

subsection \<open>The Bayesian stage\<close>

text \<open>\<open>xs[i] /= c\<close> and \<open>xs[-1] /= c\<close> on an array.\<close>

definition divide_at :: "real \<Rightarrow> nat \<Rightarrow> real list \<Rightarrow> error + real list" where
  "divide_at c i xs =
     (if length xs \<le> i then Inl (IndexError ''index out of bounds'')
      else if c = 0 then Inl NonFinite
      else Inr (xs[i := xs ! i / c]))"

definition divide_last :: "real \<Rightarrow> real list \<Rightarrow> error + real list" where
  "divide_last c xs =
     (if xs = [] then Inl (IndexError ''index out of bounds'') else divide_at c (length xs - 1) xs)"

text \<open>\<open>np.median\<close> and a column \<open>m[:, i]\<close> of a matrix given by its rows.\<close>

definition np_median :: "real list \<Rightarrow> error + real" where
  "np_median xs =
     (if xs = [] then Inl NonFinite
      else let ys = sort xs; n = length ys
           in Inr (if even n then (ys ! (n div 2 - 1) + ys ! (n div 2)) / 2 else ys ! (n div 2)))"

definition column :: "real list list \<Rightarrow> nat \<Rightarrow> error + real list" where
  "column m i = map_err (\<lambda>row. getitem row i) m"

definition abs_last :: "real list \<Rightarrow> error + real list" where
  "abs_last row =
     (if row = [] then Inl (IndexError ''index out of bounds'')
      else Inr (row[length row - 1 := \<bar>last row\<bar>]))"

text \<open>
  \<open>fit_Bayes\<close>, lines 544 to 605. The random numbers and the sampler's chain are what
  the collaborators \<open>randn\<close> and \<open>run_mcmc\<close> give in the run at hand.
\<close>

definition fit_Bayes :: "collab \<Rightarrow> session \<Rightarrow> error + session" where
  "fit_Bayes C s =
     bind_err (fold_err (\<lambda>i. divide_at (spectrum_scale s) (i * 3)) [0..<line_num s] (fit_sol s)) (\<lambda>f1.
     bind_err (divide_last (spectrum_scale s) f1) (\<lambda>f2.
     let n_dim = 3 * line_num s + 1;
         n_walkers = n_dim * 3 + 4;
         random' = map (map (\<lambda>r. 0.0001 * r)) (randn C n_walkers n_dim)
     in
     bind_err (map_err (\<lambda>row. np_zip (+) f2 row) random') (\<lambda>init0.
     bind_err (map_err abs_last init0) (\<lambda>init'.
     bind_err (run_mcmc C n_walkers n_dim
                 (axis_restricted s, spectrum_restricted s, noise s, model_type s, line_num s,
                  sinc_width s, [vel_ml s, broad_ml s, vel_ml_sigma s, broad_ml_sigma s]) init')
       (\<lambda>flat_samples.
     bind_err (map_err (\<lambda>i. bind_err (column flat_samples i) np_median) [0..<n_dim])
       (\<lambda>parameters_med.
     bind_err (map_err (\<lambda>i. bind_err (column flat_samples i) np_std) [0..<n_dim])
       (\<lambda>parameters_std.
     bind_err (unscale (line_num s) (spectrum_scale s) (parameters_med, parameters_std))
       (\<lambda>(p, u).
     set_fit_vector C (s\<lparr>fit_sol := p, uncertainties := u\<rparr>)))))))))"

subsection \<open>The fit statistic and the result\<close>

text \<open>\<open>calc_chisquare\<close>, lines 607 to 626.\<close>

definition calc_chisquare ::
  "session \<Rightarrow> real list \<Rightarrow> real list \<Rightarrow> real \<Rightarrow> int \<Rightarrow> ((real \<times> real) \<times> session) run" where
  "calc_chisquare s fit_vec init_spectrum init_errors n_dof =
     bind_run (restrict_wavelength s) (\<lambda>((min_restricted, max_restricted), s').
     bind_run (lift (np_zip (-) (slice fit_vec min_restricted max_restricted)
                       (slice init_spectrum min_restricted max_restricted))) (\<lambda>d.
     bind_run (lift (np_divide d (slice init_spectrum min_restricted max_restricted))) (\<lambda>z.
     let chi2 = sum_list (map (\<lambda>v. v\<^sup>2) z) in
     bind_run (lift (fdiv chi2 (of_int (n_dof - 1)))) (\<lambda>chi2dof.
       ret ((chi2, chi2dof), s')))))"

text \<open>The values of the returned dictionary: a number or a sequence of numbers.\<close>

datatype pyval = Num real | Vec "real list"

type_synonym fit_dict = "(string \<times> pyval) list"

record line_values =
  ampl :: real
  flux :: real
  vel :: real
  sigma :: real
  vel_error :: real
  sigma_error :: real
  flux_error :: real

text \<open>The body of the loop of lines 525 to 533.\<close>

definition line_step :: "collab \<Rightarrow> session \<Rightarrow> nat \<Rightarrow> error + line_values" where
  "line_step C s line_ct =
     bind_err (getitem (fit_sol s) (line_ct * 3)) (\<lambda>a.
     bind_err (getitem (fit_sol s) (line_ct * 3 + 2)) (\<lambda>w.
     bind_err (calculate_flux C a w (model_type s) (sinc_width s)) (\<lambda>fl.
     bind_err (calculate_vel C line_ct (lines s) (fit_sol s) line_dict) (\<lambda>v.
     bind_err (calculate_broad C line_ct (fit_sol s) (axis_step s)) (\<lambda>b.
     bind_err (calculate_vel_err C line_ct (lines s) (fit_sol s) line_dict (uncertainties s)) (\<lambda>ve.
     bind_err (calculate_broad_err C line_ct (fit_sol s) (axis_step s) (uncertainties s)) (\<lambda>be.
     bind_err (calculate_flux_err C line_ct (fit_sol s) (uncertainties s) (model_type s)
                 (sinc_width s)) (\<lambda>fe.
       Inr \<lparr>ampl = a, flux = fl, vel = v, sigma = b, vel_error = ve, sigma_error = be,
            flux_error = fe\<rparr>))))))))"

text \<open>Lines 535 to 541: the dictionary, key by key.\<close>

definition make_fit_dict :: "session \<Rightarrow> real list \<Rightarrow> line_values list \<Rightarrow> real \<Rightarrow> real \<Rightarrow> fit_dict" where
  "make_fit_dict s fv ls red_chi_sqr continuum =
     [(''fit_sol'', Vec (fit_sol s)), (''fit_uncertainties'', Vec (uncertainties s)),
      (''fit_vector'', Vec fv), (''fit_axis'', Vec (axis s)),
      (''amplitudes'', Vec (map ampl ls)), (''fluxes'', Vec (map flux ls)),
      (''flux_errors'', Vec (map flux_error ls)), (''chi2'', Num red_chi_sqr),
      (''velocities'', Vec (map vel ls)), (''sigmas'', Vec (map sigma ls)),
      (''vels_errors'', Vec (map vel_error ls)), (''sigmas_errors'', Vec (map sigma_error ls)),
      (''axis_step'', Num (axis_step s)), (''corr'', Num (correction_factor s)),
      (''continuum'', Num continuum), (''scale'', Num (spectrum_scale s))]"

text \<open>Lines 503 to 509: the priors of the machine-learning model, or the scale alone.\<close>

definition fit_priors :: "collab \<Rightarrow> session \<Rightarrow> error + session" where
  "fit_priors C s =
     (if ML_model s \<noteq> None then bind_err (interpolate_spectrum C s) estimate_priors_ML
      else bind_err (np_max (spectrum s)) (\<lambda>m. Inr (s\<lparr>spectrum_scale := m\<rparr>)))"

text \<open>Line 516: the statistic of the model curve against the spectrum.\<close>

definition fit_statistic :: "session \<Rightarrow> ((real \<times> real) \<times> session) run" where
  "fit_statistic s =
     (case fit_vector s of
        None \<Rightarrow> throw (AttributeError ''fit_vector'')
      | Some fv \<Rightarrow> calc_chisquare s fv (spectrum s) (noise s) (3 * int (line_num s) + 1))"

text \<open>\<open>fit\<close>, lines 492 to 542.\<close>

definition fit :: "collab \<Rightarrow> session \<Rightarrow> (fit_dict \<times> session) run" where
  "fit C s =
     bind_run (lift (fit_priors C s)) (\<lambda>s1.
     bind_run (calculate_params C s1) (\<lambda>s2.
     bind_run (if bayes_bool s2 then lift (fit_Bayes C s2) else ret s2) (\<lambda>s3.
     bind_run (fit_statistic s3) (\<lambda>((chi_sqr, red_chi_sqr), s4).
     bind_run (lift (map_err (line_step C s4) [0..<length (lines s4)])) (\<lambda>ls.
     bind_run (lift (get_last (fit_sol s4))) (\<lambda>continuum.
       case fit_vector s4 of
         None \<Rightarrow> throw (AttributeError ''fit_vector'')
       | Some fv \<Rightarrow> ret (make_fit_dict s4 fv ls red_chi_sqr continuum, s4)))))))"

subsection \<open>A minimiser that refuses inequality constraints\<close>

text \<open>
  A way to read what \<open>calculate_params\<close> hands to the minimiser: the solver wrapped so
  that it raises unless every constraint it is handed is of type \<open>eq\<close>.
\<close>

definition only_equalities ::
  "((real list \<Rightarrow> real run) \<Rightarrow> real list \<Rightarrow> real list \<times> real list \<Rightarrow> constraint list \<Rightarrow> real list run)
   \<Rightarrow> (real list \<Rightarrow> real run) \<Rightarrow> real list \<Rightarrow> real list \<times> real list \<Rightarrow> constraint list
   \<Rightarrow> real list run" where
  "only_equalities solver objective initial bounds constraints =
     (if list_all (\<lambda>c. ctype c = ''eq'') constraints
      then solver objective initial bounds constraints
      else throw (TypeError ''an inequality constraint''))"

subsection \<open>Inputs used in the examples\<close>

text \<open>The globals of a process that has built no session yet.\<close>

definition fresh :: globals where
  "fresh = \<lparr>bound_lower = None, bound_upper = None, model = None, stdout = []\<rparr>"

text \<open>A spectrum of five samples through an SN3 filter, with one line to fit.\<close>

definition demo_args :: init_args where
  "demo_args = \<lparr>arg_spectrum = [1, 2, 4, 2, 1], arg_axis = [14300, 14500, 15000, 15400, 16000],
     arg_wavenumbers_syn = [], arg_model_type = ''gaussian'', arg_lines = [''Halpha''],
     arg_vel_rel = [1], arg_sigma_rel = [1], arg_ML_model = None, arg_trans_filter = None,
     arg_theta = 0, arg_delta_x = 2943, arg_n_steps = 842, arg_zpd_index = 169,
     arg_filter = ''SN3'', arg_bayes_bool = False, arg_uncertainty_bool = False,
     arg_mdn = False\<rparr>"

text \<open>The same line twice: two components, each in a group of its own.\<close>

definition two_component_args :: init_args where
  "two_component_args = demo_args\<lparr>arg_lines := [''Halpha'', ''Halpha''], arg_vel_rel := [1, 2],
     arg_sigma_rel := [1, 2]\<rparr>"

text \<open>Two components that share their velocity group and their width group.\<close>

definition shared_group_args :: init_args where
  "shared_group_args = demo_args\<lparr>arg_lines := [''Halpha'', ''Halpha''], arg_vel_rel := [1, 1],
     arg_sigma_rel := [1, 1]\<rparr>"


definition sn2_args :: init_args where
  "sn2_args = demo_args\<lparr>arg_spectrum := [1, 4, 2, 1], arg_axis := [19000, 19600, 20700, 21000],
     arg_filter := ''SN2''\<rparr>"

text \<open>The session that \<open>__init__\<close> builds from \<open>demo_args\<close>, and the globals it leaves.\<close>

definition demo_session :: session where
  "demo_session = \<lparr>spectrum = [1, 2, 4, 2, 1],
     spectrum_clean = [1 / 4, 1 / 2, 1, 1 / 2, 1 / 4],
     axis = [14300, 14500, 15000, 15400, 16000],
     wavenumbers_syn = [], model_type = ''gaussian'',
     lines = [''Halpha''], line_num = 1, trans_filter = None,
     filter_name = ''SN3'', spectrum_interpolated = [0, 0, 0, 0, 0],
     spectrum_normalized = [1 / 4, 1 / 2, 1, 1 / 2, 1 / 4],
     spectrum_interp_norm = [0, 0, 0, 0, 0],
     spectrum_restricted = [1 / 2, 1],
     axis_restricted = [14500, 15000],
     spectrum_restricted_norm = [1 / 2, 1], theta = 0, cos_theta = 1,
     correction_factor = 1, axis_step = 5000000 / 1980639,
     delta_x = 2943, n_steps = 842, zpd_index = 169, noise = 0,
     sigma_rel = [1], vel_rel = [1], ML_model = None,
     bayes_bool = False, uncertainty_bool = False,
     spectrum_scale = 0, spectrum_interp_scale = None,
     sinc_width = 5000000 / 1980639, mdn = False, vel_ml = 0,
     broad_ml = 0, vel_ml_sigma = 0, broad_ml_sigma = 0,
     fit_sol = [0, 0, 0, 0], uncertainties = [0, 0, 0, 0],
     A_min = - (1 / 2), A_max = 11 / 10, x_min = 0, x_max = 1000000,
     sigma_min = 1 / 1000, sigma_max = 300, inital_values = None,
     fit_vector = None\<rparr>"

definition demo_globals :: globals where
  "demo_globals = \<lparr>bound_lower = Some 14300, bound_upper = Some 14500, model = None, stdout = []\<rparr>"

text \<open>The same session with a model curve, and the globals after \<open>restrict_wavelength\<close>.\<close>

definition fitted_session :: session where
  "fitted_session = demo_session\<lparr>fit_vector := Some [2, 2, 2, 2, 2]\<rparr>"

definition window_globals :: globals where
  "window_globals = \<lparr>bound_lower = Some 14500, bound_upper = Some 15400, model = None, stdout = []\<rparr>"

text \<open>A spectrum whose highest sample lies at 16000, to the blue of \<open>Halpha\<close> at rest.\<close>

definition blue_args :: init_args where
  "blue_args = demo_args\<lparr>arg_spectrum := [1, 1, 2, 4], arg_axis := [14300, 14500, 15400, 16000]\<rparr>"

text \<open>Whether a message contains a given text.\<close>

fun starts_with :: "string \<Rightarrow> string \<Rightarrow> bool" where
  "starts_with [] s = True"
| "starts_with (c # p) [] = False"
| "starts_with (c # p) (d # s) = (c = d \<and> starts_with p s)"

fun mentions :: "string \<Rightarrow> string \<Rightarrow> bool" where
  "mentions [] p = (p = [])"
| "mentions (c # s) p = (starts_with p (c # s) \<or> mentions s p)"

text \<open>A line that the catalog does not have.\<close>

definition unknown_line_args :: init_args where
  "unknown_line_args = demo_args\<lparr>arg_lines := [''Hgamma'']\<rparr>"

text \<open>
  Collaborators for the examples: a minimiser that returns the initial vector, line
  shapes that are zero everywhere, no clipping, and calculators that return the
  product of amplitude and width for the flux and zero for the rest.
\<close>

definition demo_collab :: collab where
  "demo_collab = \<lparr>
     interp1d = (\<lambda>ax sp ref. Inr (map (\<lambda>w. 0) ref)),
     sigma_clip = (\<lambda>sp lvl. sp),
     gaussian_evaluate = (\<lambda>ax th n. Inr (map (\<lambda>w. 0) ax)),
     sinc_evaluate = (\<lambda>ax th n w. Inr (map (\<lambda>w. 0) ax)),
     sincgauss_evaluate = (\<lambda>ax th n w. Inr (map (\<lambda>w. 0) ax)),
     gaussian_plot = (\<lambda>ax th n. Inr (map (\<lambda>w. 0) ax)),
     sinc_plot = (\<lambda>ax th n w. Inr (map (\<lambda>w. 0) ax)),
     sincgauss_plot = (\<lambda>ax th n w. Inr (map (\<lambda>w. 0) ax)),
     minimize = (\<lambda>objective initial bounds constraints. ret initial),
     hessian = (\<lambda>objective x. ret []),
     linalg_inv = (\<lambda>m. Inr m),
     randn = (\<lambda>rows columns. []),
     run_mcmc = (\<lambda>walkers dim args init. Inr []),
     calculate_flux = (\<lambda>a w m sw. Inr (a * w)),
     calculate_vel = (\<lambda>i ls sol d. Inr 0),
     calculate_broad = (\<lambda>i sol st. Inr 0),
     calculate_vel_err = (\<lambda>i ls sol d u. Inr 0),
     calculate_broad_err = (\<lambda>i sol st u. Inr 0),
     calculate_flux_err = (\<lambda>i sol u m sw. Inr 0)\<rparr>"

text \<open>What \<open>fit\<close> returns on \<open>demo_session\<close> with these collaborators.\<close>

definition demo_fit_session :: session where
  "demo_fit_session = demo_session\<lparr>spectrum_scale := 4, vel_ml := 77900000 / 16407, broad_ml := 10,
     fit_sol := [2, 15000, 1 / 2, 2], inital_values := Some [1 / 2, 15000, 1 / 2, 1 / 2],
     fit_vector := Some [2, 2, 2, 2, 2]\<rparr>"

definition demo_fit_dict :: fit_dict where
  "demo_fit_dict =
     [(''fit_sol'', Vec [2, 15000, 1 / 2, 2]), (''fit_uncertainties'', Vec [0, 0, 0, 0]),
      (''fit_vector'', Vec [2, 2, 2, 2, 2]),
      (''fit_axis'', Vec [14300, 14500, 15000, 15400, 16000]),
      (''amplitudes'', Vec [2]), (''fluxes'', Vec [1]), (''flux_errors'', Vec [0]),
      (''chi2'', Num (1 / 12)), (''velocities'', Vec [0]), (''sigmas'', Vec [0]),
      (''vels_errors'', Vec [0]), (''sigmas_errors'', Vec [0]),
      (''axis_step'', Num (5000000 / 1980639)), (''corr'', Num 1), (''continuum'', Num 2),
      (''scale'', Num 4)]"

text \<open>A filter that LUCI does not support.\<close>

definition unsupported_args :: init_args where
  "unsupported_args = demo_args\<lparr>arg_filter := ''SN4''\<rparr>"

text \<open>
  The attributes that decide the uncertainties of a fit: the vector itself, the number
  of lines and the two flags.
\<close>

definition kept :: "session \<Rightarrow> real list \<times> nat \<times> bool \<times> bool" where
  "kept s = (uncertainties s, line_num s, uncertainty_bool s, bayes_bool s)"

text \<open>A session whose uncertainties are the zeros of \<open>__init__\<close> and whose flags keep them so.\<close>

definition never_estimated :: "session \<Rightarrow> bool" where
  "never_estimated s =
     (uncertainties s = replicate (3 * line_num s + 1) 0 \<and> \<not> uncertainty_bool s \<and> \<not> bayes_bool s)"

section \<open>Properties\<close>

subsection \<open>The constraint builders\<close>

lemma vel_inner_dict: "dict_list (vel_inner inds b) = dict_list b"
  by (induction inds arbitrary: b) simp_all

lemma vel_outer_dict: "dict_list (vel_outer rel us b) = dict_list b"
  by (induction us arbitrary: b) (simp_all add: Let_def vel_inner_dict)

lemma vel_constraints_nil: "vel_constraints s = []"
  by (simp add: vel_constraints_def vel_outer_dict new_builder_def close_over_def)

lemma multi_inner_dict: "dict_list (multi_inner inds b) = dict_list b"
  by (induction inds arbitrary: b) simp_all

lemma multi_outer_dict: "dict_list (multi_outer rel us b) = dict_list b"
  by (induction us arbitrary: b) (simp_all add: Let_def multi_inner_dict)

lemma multiple_component_nil: "multiple_component_vel_constraint s = []"
  by (simp add: multiple_component_vel_constraint_def multi_outer_dict new_builder_def
      close_over_def)

lemma sigma_inner_dict:
  "list_all (\<lambda>d. d = (''eq'', Sigma_lambda)) (dict_list b) \<Longrightarrow>
   list_all (\<lambda>d. d = (''eq'', Sigma_lambda)) (dict_list (sigma_inner inds b))"
  by (induction inds arbitrary: b) simp_all

lemma sigma_outer_dict:
  "list_all (\<lambda>d. d = (''eq'', Sigma_lambda)) (dict_list b) \<Longrightarrow>
   list_all (\<lambda>d. d = (''eq'', Sigma_lambda)) (dict_list (sigma_outer rel us b))"
  by (induction us arbitrary: b) (simp_all add: Let_def sigma_inner_dict)

text \<open>
  C1. Two lines in one velocity group: \<open>vel_constraints\<close> builds the dictionary of an
  equality constraint for the second line and drops it, since the loop never appends
  to the list it returns. The constraints handed to the minimiser for velocity groups
  \<open>[1, 1]\<close> (and width groups \<open>[1, 2]\<close>) are the empty list: nothing ties the two
  positions.
\<close>

theorem vel_constraints_never_appended:
  "vel_constraints (s\<lparr>vel_rel := [1, 1]\<rparr>) = [] \<and>
   cons (s\<lparr>vel_rel := [1, 1], sigma_rel := [1, 2]\<rparr>) = []"
proof -
  have "sigma_constraints (s\<lparr>vel_rel := [1, 1], sigma_rel := [1, 2]\<rparr>) = []"
    by (simp add: sigma_constraints_def np_unique_def indices_of_def upt_rec new_builder_def
        close_over_def)
  then show ?thesis
    by (simp add: cons_def vel_constraints_nil)
qed

text \<open>
  C3. Three lines in one width group, indices 0, 1 and 2. The builder returns two
  constraints, and on the parameter vector with widths 10, 20 and 30 both evaluate to
  \<open>x[2] - x[8] = -20\<close>: the closures read \<open>ind_unique\<close> when they are called, after the
  loop has left it at 2. The first one does not evaluate to \<open>x[2] - x[5] = -10\<close>, so the
  width of the second line is tied to nothing.
\<close>

theorem sigma_constraints_late_binding:
  "map (\<lambda>c. call_fun c [0, 0, 10, 0, 0, 20, 0, 0, 30, 0])
     (sigma_constraints (s\<lparr>sigma_rel := [1, 1, 1]\<rparr>)) = [Inr (- 20), Inr (- 20)]"
  by (simp add: sigma_constraints_def np_unique_def indices_of_def upt_rec new_builder_def
      empty_frame_def close_over_def call_fun_def getitem_def bind_err_def)

subsection \<open>The nearest sample: \<open>np.argmin\<close> of the distances\<close>

lemma argmin_scan_spec:
  assumes "i = length pre" "b < i" "v = (pre @ xs) ! b"
    "\<forall>j<i. v \<le> (pre @ xs) ! j" "\<forall>j<b. v < (pre @ xs) ! j"
  shows "argmin_scan xs i b v < length (pre @ xs) \<and>
         (\<forall>j<length (pre @ xs). (pre @ xs) ! argmin_scan xs i b v \<le> (pre @ xs) ! j) \<and>
         (\<forall>j<argmin_scan xs i b v. (pre @ xs) ! argmin_scan xs i b v < (pre @ xs) ! j)"
  using assms
proof (induction xs arbitrary: pre i b v)
  case Nil
  then show ?case by simp
next
  case (Cons x xs)
  let ?zs = "pre @ x # xs"
  have zs: "?zs = (pre @ [x]) @ xs" by simp
  have xi: "?zs ! i = x" using Cons.prems(1) by simp
  show ?case
  proof (cases "x < v")
    case True
    have "argmin_scan xs (Suc i) i x < length ((pre @ [x]) @ xs) \<and>
         (\<forall>j<length ((pre @ [x]) @ xs). ((pre @ [x]) @ xs) ! argmin_scan xs (Suc i) i x \<le> ((pre @ [x]) @ xs) ! j) \<and>
         (\<forall>j<argmin_scan xs (Suc i) i x. ((pre @ [x]) @ xs) ! argmin_scan xs (Suc i) i x < ((pre @ [x]) @ xs) ! j)"
    proof (rule Cons.IH)
      show "Suc i = length (pre @ [x])" using Cons.prems(1) by simp
      show "i < Suc i" by simp
      show "x = ((pre @ [x]) @ xs) ! i" using xi by simp
      show "\<forall>j<Suc i. x \<le> ((pre @ [x]) @ xs) ! j"
      proof (intro allI impI)
        fix j assume "j < Suc i"
        then consider "j < i" | "j = i" by linarith
        then show "x \<le> ((pre @ [x]) @ xs) ! j"
        proof cases
          case 1
          then have "v \<le> ?zs ! j" using Cons.prems(4) by blast
          then show ?thesis using True by simp
        next
          case 2
          then show ?thesis using xi by simp
        qed
      qed
      show "\<forall>j<i. x < ((pre @ [x]) @ xs) ! j"
      proof (intro allI impI)
        fix j assume "j < i"
        then have "v \<le> ?zs ! j" using Cons.prems(4) by blast
        then show "x < ((pre @ [x]) @ xs) ! j" using True by simp
      qed
    qed
    then show ?thesis using True by simp
  next
    case False
    have "argmin_scan xs (Suc i) b v < length ((pre @ [x]) @ xs) \<and>
         (\<forall>j<length ((pre @ [x]) @ xs). ((pre @ [x]) @ xs) ! argmin_scan xs (Suc i) b v \<le> ((pre @ [x]) @ xs) ! j) \<and>
         (\<forall>j<argmin_scan xs (Suc i) b v. ((pre @ [x]) @ xs) ! argmin_scan xs (Suc i) b v < ((pre @ [x]) @ xs) ! j)"
    proof (rule Cons.IH)
      show "Suc i = length (pre @ [x])" using Cons.prems(1) by simp
      show "b < Suc i" using Cons.prems(2) by simp
      show "v = ((pre @ [x]) @ xs) ! b" using Cons.prems(3) by simp
      show "\<forall>j<Suc i. v \<le> ((pre @ [x]) @ xs) ! j"
      proof (intro allI impI)
        fix j assume "j < Suc i"
        then consider "j < i" | "j = i" by linarith
        then show "v \<le> ((pre @ [x]) @ xs) ! j"
        proof cases
          case 1
          then show ?thesis using Cons.prems(4) by simp
        next
          case 2
          then show ?thesis using xi False by simp
        qed
      qed
      show "\<forall>j<b. v < ((pre @ [x]) @ xs) ! j" using Cons.prems(5) by simp
    qed
    then show ?thesis using False by simp
  qed
qed

lemma np_argmin_spec:
  assumes "xs \<noteq> []"
  shows "\<exists>k. np_argmin xs = Inr k \<and> k < length xs \<and> (\<forall>j<length xs. xs ! k \<le> xs ! j) \<and>
             (\<forall>j<k. xs ! k < xs ! j)"
proof -
  obtain y ys where xs: "xs = y # ys" using assms by (cases xs) auto
  have "argmin_scan ys 1 0 y < length ([y] @ ys) \<and>
         (\<forall>j<length ([y] @ ys). ([y] @ ys) ! argmin_scan ys 1 0 y \<le> ([y] @ ys) ! j) \<and>
         (\<forall>j<argmin_scan ys 1 0 y. ([y] @ ys) ! argmin_scan ys 1 0 y < ([y] @ ys) ! j)"
    by (rule argmin_scan_spec) simp_all
  then show ?thesis by (simp add: xs np_argmin_def)
qed

lemma nearest_index_spec:
  assumes "ax \<noteq> []"
  shows "\<exists>k. nearest_index ax b = Inr k \<and> k < length ax \<and>
             (\<forall>j<length ax. \<bar>ax ! k - b\<bar> \<le> \<bar>ax ! j - b\<bar>) \<and>
             (\<forall>j<k. \<bar>ax ! k - b\<bar> < \<bar>ax ! j - b\<bar>)"
proof -
  from np_argmin_spec[of "map (\<lambda>a. \<bar>a - b\<bar>) ax"] assms
  obtain k where k: "np_argmin (map (\<lambda>a. \<bar>a - b\<bar>) ax) = Inr k" "k < length ax"
    "\<forall>j<length ax. map (\<lambda>a. \<bar>a - b\<bar>) ax ! k \<le> map (\<lambda>a. \<bar>a - b\<bar>) ax ! j"
    "\<forall>j<k. map (\<lambda>a. \<bar>a - b\<bar>) ax ! k < map (\<lambda>a. \<bar>a - b\<bar>) ax ! j"
    by auto
  have "\<forall>j<length ax. \<bar>ax ! k - b\<bar> \<le> \<bar>ax ! j - b\<bar>" using k(2,3) by simp
  moreover have "\<forall>j<k. \<bar>ax ! k - b\<bar> < \<bar>ax ! j - b\<bar>" using k(2,4) by simp
  ultimately show ?thesis using k(1,2) by (auto simp: nearest_index_def)
qed

subsection \<open>Evaluation of the examples\<close>

lemmas np_defs = np_max_def np_min_def np_argmin_def np_argmax_def slice_def getitem_def
  np_zip_def np_divide_def divide_by_def fdiv_def bind_err_def normalize_def zeros_like_def
  nearest_index_def np_std_def np_mean_def

lemmas run_defs = ret_def throw_def lift_def bind_run_def print_def set_bounds_def
  read_bound_lower_def read_bound_upper_def

lemmas init_defs = Fit_init_def init_spectra_def blank_def fresh_def
  restrict_wavelength_def init_geometry_def calculate_correction_def calculate_noise_def
  init_rest_def calc_sinc_width_def init_checks_def check_lines_def check_fitting_model_def
  check_lengths_def line_dict_def available_functions_def

lemmas builder_defs = cons_def sigma_constraints_def np_unique_def indices_of_def upt_rec
  new_builder_def close_over_def

subsection \<open>The constraints handed to the minimiser\<close>

text \<open>
  C2, as the claim states it, fails: a session that fits \<open>Halpha\<close> twice is built, and
  the constraints that \<open>calculate_params\<close> hands to the minimiser are the empty list.
  No inequality constraint orders the two components.
\<close>

theorem two_components_no_inequality:
  "case Fit_init two_component_args fresh of
     (Inr s, g) \<Rightarrow> lines s = [''Halpha'', ''Halpha''] \<and> cons s = []
   | (Inl e, g) \<Rightarrow> False"
  by (simp add: two_component_args_def demo_args_def init_defs np_defs run_defs
      builder_defs vel_constraints_nil)

lemma cons_all_eq: "list_all (\<lambda>c. ctype c = ''eq'') (cons s)"
  using sigma_outer_dict[of new_builder "sigma_rel s" "np_unique (sigma_rel s)"]
  by (auto simp: cons_def vel_constraints_nil sigma_constraints_def close_over_def new_builder_def
      list_all_iff Let_def)

lemma log_likelihood_minimize: "log_likelihood (C\<lparr>minimize := m\<rparr>) = log_likelihood C"
  by (simp add: log_likelihood_def fun_eq_iff cong: if_cong)

lemma nll_minimize: "nll (C\<lparr>minimize := m\<rparr>) = nll C"
  by (simp add: nll_def fun_eq_iff log_likelihood_minimize)

lemma hessian_uncertainties_minimize:
  "hessian_uncertainties (C\<lparr>minimize := m\<rparr>) = hessian_uncertainties C"
  by (simp add: hessian_uncertainties_def fun_eq_iff nll_minimize
      cong: sum.case_cong prod.case_cong error.case_cong)

lemma set_fit_vector_minimize: "set_fit_vector (C\<lparr>minimize := m\<rparr>) = set_fit_vector C"
  by (simp add: set_fit_vector_def fun_eq_iff cong: if_cong)

lemma cont_estimate_minimize: "cont_estimate (C\<lparr>minimize := m\<rparr>) = cont_estimate C"
  by (simp add: cont_estimate_def fun_eq_iff)

lemma calculate_params_only_equalities:
  "calculate_params (C\<lparr>minimize := only_equalities (minimize C)\<rparr>) s = calculate_params C s"
  unfolding calculate_params_def nll_minimize hessian_uncertainties_minimize set_fit_vector_minimize
    cont_estimate_minimize
  by (simp add: only_equalities_def cons_all_eq Let_def cong: sum.case_cong prod.case_cong if_cong)

lemma fit_priors_minimize: "fit_priors (C\<lparr>minimize := m\<rparr>) = fit_priors C"
  by (simp add: fit_priors_def interpolate_spectrum_def fun_eq_iff cong: if_cong)

lemma fit_Bayes_minimize: "fit_Bayes (C\<lparr>minimize := m\<rparr>) = fit_Bayes C"
  by (simp add: fit_Bayes_def set_fit_vector_minimize fun_eq_iff Let_def
      cong: sum.case_cong prod.case_cong if_cong)

lemma line_step_minimize: "line_step (C\<lparr>minimize := m\<rparr>) = line_step C"
  by (simp add: line_step_def fun_eq_iff)

text \<open>
  C2, amended. For every session, whether or not a line name is repeated, and for every
  solver, every constraint that \<open>calculate_params\<close> (and so \<open>fit\<close>) hands to the minimiser
  is of type \<open>eq\<close>: a solver that raises on any other constraint gives the same run. The
  call of \<open>multiple_component_vel_constraint\<close> is commented out in \<open>calculate_params\<close>,
  so the optimisation has no inequality constraint.
\<close>

theorem minimizer_gets_only_equalities:
  "calculate_params (C\<lparr>minimize := only_equalities (minimize C)\<rparr>) s = calculate_params C s \<and>
   fit (C\<lparr>minimize := only_equalities (minimize C)\<rparr>) s = fit C s"
  unfolding fit_def calculate_params_only_equalities fit_priors_minimize fit_Bayes_minimize
    line_step_minimize
  by simp

theorem minimizer_gets_only_equalities_witness:
  "(\<exists>s g. Fit_init shared_group_args fresh = (Inr s, g) \<and> length (cons s) = 1 \<and>
      fit (demo_collab\<lparr>minimize := only_equalities (minimize demo_collab)\<rparr>) s g = fit demo_collab s g) \<and>
   only_equalities (minimize demo_collab) (nll demo_collab demo_session) [] ([], [])
      [\<lparr>ctype = ''ineq'', cfun = Multi_lambda, cells = empty_frame\<rparr>] fresh =
     (Inl (TypeError ''an inequality constraint''), fresh)"
proof -
  have "\<exists>s g. Fit_init shared_group_args fresh = (Inr s, g) \<and> length (cons s) = 1"
    by (simp add: shared_group_args_def demo_args_def init_defs np_defs run_defs
        builder_defs vel_constraints_nil)
  then obtain s g where s: "Fit_init shared_group_args fresh = (Inr s, g)" "length (cons s) = 1"
    by blast
  have "fit (demo_collab\<lparr>minimize := only_equalities (minimize demo_collab)\<rparr>) s g =
        fit demo_collab s g"
    by (simp add: minimizer_gets_only_equalities)
  then have a: "\<exists>s g. Fit_init shared_group_args fresh = (Inr s, g) \<and> length (cons s) = 1 \<and>
      fit (demo_collab\<lparr>minimize := only_equalities (minimize demo_collab)\<rparr>) s g = fit demo_collab s g"
    using s by blast
  have b: "only_equalities (minimize demo_collab) (nll demo_collab demo_session) [] ([], [])
      [\<lparr>ctype = ''ineq'', cfun = Multi_lambda, cells = empty_frame\<rparr>] fresh =
     (Inl (TypeError ''an inequality constraint''), fresh)"
    by (simp add: only_equalities_def throw_def)
  show ?thesis using a b by blast
qed

subsection \<open>The window of \<open>restrict_wavelength\<close>\<close>


subsection \<open>The fit statistic\<close>

lemma Fit_init_demo: "Fit_init demo_args fresh = (Inr demo_session, demo_globals)"
  by (simp add: demo_args_def init_defs np_defs run_defs demo_session_def demo_globals_def
      numeral_3_eq_3)

lemma slice_upt: "slice xs lo hi = map (\<lambda>i. xs ! i) [lo..<min hi (length xs)]"
proof (rule nth_equalityI)
  show "length (slice xs lo hi) = length (map (\<lambda>i. xs ! i) [lo..<min hi (length xs)])"
    by (auto simp: slice_def)
next
  fix i assume "i < length (slice xs lo hi)"
  then have i: "lo + i < min hi (length xs)" by (auto simp: slice_def)
  have a: "[lo..<min hi (length xs)] ! i = lo + i" using i by (rule nth_upt)
  have b: "i < length [lo..<min hi (length xs)]" using i by simp arith
  have i1: "i < hi - lo" using i by arith
  have i2: "lo \<le> length xs" using i by arith
  have c: "slice xs lo hi ! i = xs ! (lo + i)"
    using i1 i2 by (simp add: slice_def)
  show "slice xs lo hi ! i = map (\<lambda>i. xs ! i) [lo..<min hi (length xs)] ! i"
    unfolding c nth_map[OF b] a ..
qed

lemma map2_same: "map2 f (map g l) (map h l) = map (\<lambda>i. f (g i) (h i)) l"
  by (induction l) simp_all

lemma chi_window:
  assumes "length fit_vec = length obs" "list_all (\<lambda>v. v \<noteq> 0) (slice obs lo hi)"
  shows "bind_err (np_zip (-) (slice fit_vec lo hi) (slice obs lo hi))
           (\<lambda>d. np_divide d (slice obs lo hi)) =
         Inr (map (\<lambda>i. (fit_vec ! i - obs ! i) / obs ! i) [lo..<min hi (length obs)])"
proof -
  have nz: "\<not> list_ex (\<lambda>y. y = 0) (slice obs lo hi)"
    using assms(2) by (simp add: list_all_iff list_ex_iff)
  have d: "np_zip (-) (slice fit_vec lo hi) (slice obs lo hi) =
      Inr (map (\<lambda>i. fit_vec ! i - obs ! i) [lo..<min hi (length obs)])"
    by (simp add: np_zip_def slice_upt assms(1) map2_same)
  have "np_divide (map (\<lambda>i. fit_vec ! i - obs ! i) [lo..<min hi (length obs)]) (slice obs lo hi) =
      Inr (map (\<lambda>i. (fit_vec ! i - obs ! i) / obs ! i) [lo..<min hi (length obs)])"
    using nz by (simp add: np_divide_def np_zip_def bind_err_def slice_upt map2_same)
  then show ?thesis by (simp add: d bind_err_def)
qed

lemma restrict_fitted:
  "restrict_wavelength fitted_session demo_globals = (Inr ((1, 3), fitted_session), window_globals)"
  by (simp add: fitted_session_def demo_session_def demo_globals_def window_globals_def
      restrict_wavelength_def np_defs run_defs)

text \<open>
  C7. \<open>calc_chisquare\<close> returns \<open>chi2\<close>, the sum over the samples of the restricted
  window of \<open>((fit - observed) / observed)\<^sup>2\<close>, and \<open>chi2 / (n_dof - 1)\<close>; \<open>fit\<close> calls it
  with \<open>n_dof = 3 * line_num + 1\<close>, so the reduced value is \<open>chi2 / (3 * line_num)\<close>. The
  window is \<open>[lo, hi)\<close> as \<open>restrict_wavelength\<close> returns it, cut at the end of the
  spectrum. Over the reals this needs the observed samples of the window to differ
  from zero and \<open>n_dof - 1\<close> to differ from zero, where numpy would give \<open>inf\<close> or \<open>nan\<close>.
\<close>

theorem calc_chisquare_formula:
  assumes "restrict_wavelength s g = (Inr ((lo, hi), s'), g')"
    and "length fit_vec = length obs"
    and "list_all (\<lambda>v. v \<noteq> 0) (slice obs lo hi)"
    and "n_dof \<noteq> 1"
  shows "let chi2 = (\<Sum>i = lo..<min hi (length obs). ((fit_vec ! i - obs ! i) / obs ! i)\<^sup>2) in
         calc_chisquare s fit_vec obs errs n_dof g =
           (Inr ((chi2, chi2 / of_int (n_dof - 1)), s'), g') \<and>
         (fit_vector s = Some fit_vec \<and> spectrum s = obs \<and> 0 < line_num s \<longrightarrow>
            fit_statistic s g = (Inr ((chi2, chi2 / (3 * real (line_num s))), s'), g'))"
proof -
  let ?chi2 = "\<Sum>i = lo..<min hi (length obs). ((fit_vec ! i - obs ! i) / obs ! i)\<^sup>2"
  have w: "bind_err (np_zip (-) (slice fit_vec lo hi) (slice obs lo hi))
           (\<lambda>d. np_divide d (slice obs lo hi)) =
         Inr (map (\<lambda>i. (fit_vec ! i - obs ! i) / obs ! i) [lo..<min hi (length obs)])"
    by (rule chi_window[OF assms(2,3)])
  have sum: "sum_list (map (\<lambda>v. v\<^sup>2)
        (map (\<lambda>i. (fit_vec ! i - obs ! i) / obs ! i) [lo..<min hi (length obs)])) = ?chi2"
    by (simp add: interv_sum_list_conv_sum_set_nat comp_def)
  have gen: "calc_chisquare s fit_vec obs e m g =
           (Inr ((?chi2, ?chi2 / of_int (m - 1)), s'), g')" if "m \<noteq> 1" for m e
    using w sum that
    by (auto simp: calc_chisquare_def bind_run_def assms(1) lift_def ret_def fdiv_def
        bind_err_def Let_def split: sum.splits)
  have "fit_statistic s g = (Inr ((?chi2, ?chi2 / (3 * real (line_num s))), s'), g')"
    if "fit_vector s = Some fit_vec" "spectrum s = obs" "0 < line_num s"
    using gen[of "3 * int (line_num s) + 1" "noise s"] that by (simp add: fit_statistic_def)
  then show ?thesis using gen[OF assms(4)] by (simp add: Let_def)
qed

theorem calc_chisquare_formula_witness:
  "calc_chisquare fitted_session [2, 2, 2, 2, 2] [1, 2, 4, 2, 1] 0 4 demo_globals =
     (Inr ((1 / 4, 1 / 12), fitted_session), window_globals) \<and>
   fit_statistic fitted_session demo_globals =
     (Inr ((1 / 4, 1 / 12), fitted_session), window_globals)"
proof -
  have sl: "list_all (\<lambda>v. v \<noteq> 0) (slice [1, 2, 4, 2, 1 :: real] 1 3)"
    by (simp add: slice_def)
  have fv: "fit_vector fitted_session = Some [2, 2, 2, 2, 2]"
    "spectrum fitted_session = [1, 2, 4, 2, 1]" "line_num fitted_session = 1"
    by (simp_all add: fitted_session_def demo_session_def)
  have s: "(\<Sum>i = 1..<min 3 (length [1, 2, 4, 2, 1 :: real]).
             (([2, 2, 2, 2, 2] ! i - [1, 2, 4, 2, 1] ! i) / [1, 2, 4, 2, 1 :: real] ! i)\<^sup>2) = 1 / 4"
    by (simp add: sum.atLeast_Suc_lessThan numeral_3_eq_3 power2_eq_square)
  show ?thesis
    using calc_chisquare_formula[OF restrict_fitted, of "[2, 2, 2, 2, 2]" "[1, 2, 4, 2, 1]" 4 0] sl fv
    unfolding Let_def s by simp
qed

subsection \<open>The analytic prior\<close>

lemma argmax_scan_neg: "argmax_scan xs i b v = argmin_scan (map uminus xs) i b (- v)"
  by (induction xs arbitrary: i b v) simp_all

lemma np_argmax_spec:
  assumes "xs \<noteq> []"
  shows "\<exists>k. np_argmax xs = Inr k \<and> k < length xs \<and> (\<forall>j<length xs. xs ! j \<le> xs ! k) \<and>
             (\<forall>j<k. xs ! j < xs ! k)"
proof -
  have eq: "np_argmax xs = np_argmin (map uminus xs)"
    by (cases xs) (simp_all add: np_argmax_def np_argmin_def argmax_scan_neg assms)
  from np_argmin_spec[of "map uminus xs"] assms
  obtain k where k: "np_argmin (map uminus xs) = Inr k" "k < length xs"
    "\<forall>j<length xs. map uminus xs ! k \<le> map uminus xs ! j"
    "\<forall>j<k. map uminus xs ! k < map uminus xs ! j"
    by auto
  have "\<forall>j<length xs. xs ! j \<le> xs ! k" using k(2,3) by simp
  moreover have "\<forall>j<k. xs ! j < xs ! k" using k(2,4) by simp
  ultimately show ?thesis using k(1,2) eq by auto
qed

lemma bind_err_Inr: "bind_err (Inr x) f = f x"
  by (simp add: bind_err_def)

lemma bind_err_Inl: "bind_err (Inl e) f = Inl e"
  by (simp add: bind_err_def)

lemma line_dict_positive: "map_of line_dict n = Some v \<Longrightarrow> 0 < v"
  by (auto simp: line_dict_def split: if_splits)

lemma amp_estimate_returns:
  assumes "i < length sp"
  shows "\<exists>v. amp_estimate sp i = Inr v"
  using assms by (auto simp: amp_estimate_def getitem_def split: sum.splits)

lemmas prior_defs = line_vals_estimate_def analytic_prior_def amp_estimate_def mdn_bounds_def
  pydiv_def getitem_int_def

text \<open>
  C5, as the claim states it, fails: for a spectrum whose highest sample lies at the
  wavenumber 16000 (a wavelength of 625, below the rest wavelength 656.28 of \<open>Halpha\<close>)
  the formula \<open>c * (lambda_obs - lambda_rest) / lambda_rest\<close> is negative, and the estimator stores its
  negation: line 297 takes the absolute value.
\<close>

theorem analytic_prior_unsigned:
  "case Fit_init blue_args fresh of
     (Inr s, g) \<Rightarrow>
       (case line_vals_estimate s ''Halpha'' of
          Inr (r, s') \<Rightarrow>
            ML_model s = None \<and> np_argmax (spectrum_normalized s) = Inr 3 \<and> axis s ! 3 = 16000 \<and>
            300000 * ((10000000 / 16000 - 656.28) / 656.28) < (0 :: real) \<and>
            vel_ml s' = - (300000 * ((10000000 / 16000 - 656.28) / 656.28))
        | Inl e \<Rightarrow> False)
   | (Inl e, g) \<Rightarrow> False"
  by (simp add: blue_args_def demo_args_def init_defs np_defs run_defs prior_defs)

text \<open>
  C5, amended. Without a machine-learning model (or with an empty model type), for a
  line of the catalog, \<open>line_vals_estimate\<close> locates the global peak of the normalised
  spectrum (the first highest sample, at index \<open>k\<close>) and stores the absolute value
  \<open>abs (c * (lambda_obs - lambda_rest) / lambda_rest)\<close> as the velocity, with \<open>c = 300000\<close>, \<open>lambda_obs = 10000000 / axis[k]\<close> and
  \<open>lambda_rest\<close> the catalog value, together with the broadening 10. The method returns when
  the axis is as long as the spectrum, its sample at the peak is not zero and, with
  the \<open>mdn\<close> flag set, the velocity's standard deviation is zero (as \<open>__init__\<close> leaves it).
\<close>

theorem analytic_prior_velocity:
  assumes "ML_model s = None \<or> model_type s = []"
    and "map_of line_dict line_name = Some line_theo"
    and "np_argmax (spectrum_normalized s) = Inr k"
    and "length (axis s) = length (spectrum_normalized s)"
    and "axis s ! k \<noteq> 0"
    and "mdn s \<longrightarrow> vel_ml_sigma s = 0"
  shows "k < length (spectrum_normalized s) \<and>
         (\<forall>j<length (spectrum_normalized s). spectrum_normalized s ! j \<le> spectrum_normalized s ! k) \<and>
         (\<exists>r s'. line_vals_estimate s line_name = Inr (r, s') \<and>
            vel_ml s' = \<bar>300000 * ((10000000 / axis s ! k - line_theo) / line_theo)\<bar> \<and>
            broad_ml s' = 10)"
proof -
  let ?sp = "spectrum_normalized s"
  have ne: "?sp \<noteq> []" using assms(3) by (auto simp: np_argmax_def)
  from np_argmax_spec[OF ne] assms(3)
  have k: "k < length ?sp" "\<forall>j<length ?sp. ?sp ! j \<le> ?sp ! k" by auto
  define v where "v = \<bar>300000 * ((10000000 / axis s ! k - line_theo) / line_theo)\<bar>"
  define s1 where "s1 = s\<lparr>vel_ml := v, broad_ml := 10\<rparr>"
  have ap: "analytic_prior s line_theo = Inr s1"
    using assms(1,3,4,5) k(1)
    by (auto simp: analytic_prior_def bind_err_def getitem_def fdiv_def s1_def v_def)
  have pos: "0 < line_theo" by (rule line_dict_positive[OF assms(2)])
  have v0: "0 \<le> v" by (simp add: v_def)
  have "0 \<le> v / 300000 * line_theo" using v0 pos by simp
  then have den: "v / 300000 * line_theo + line_theo \<noteq> 0" using pos by linarith
  define p where "p = 10000000 / (v / 300000 * line_theo + line_theo)"
  have ane: "axis s \<noteq> []" using ne assms(4) by auto
  from nearest_index_spec[OF ane, of p] obtain li where
    li: "nearest_index (axis s) p = Inr li" "li < length (axis s)" by blast
  from amp_estimate_returns[of li ?sp] li(2) assms(4) obtain amp where
    amp: "amp_estimate ?sp li = Inr amp" by auto
  have s1f: "vel_ml s1 = v" "broad_ml s1 = 10" "axis s1 = axis s"
    "spectrum_normalized s1 = ?sp" "mdn s1 = mdn s" "vel_ml_sigma s1 = vel_ml_sigma s"
    by (simp_all add: s1_def)
  have pd: "pydiv 10000000 (vel_ml s1 / 300000 * line_theo + line_theo) = Inr p"
    using den by (simp add: pydiv_def p_def s1f)
  have "\<exists>s2. mdn_bounds s1 line_theo p = Inr s2 \<and> vel_ml s2 = v \<and> broad_ml s2 = 10"
  proof (cases "mdn s")
    case True
    then have sg: "vel_ml_sigma s = 0" using assms(6) by simp
    show ?thesis
      using den True by (simp add: mdn_bounds_def pydiv_def bind_err_def s1f sg)
  next
    case False
    then show ?thesis by (simp add: mdn_bounds_def s1f)
  qed
  then obtain s2 where s2: "mdn_bounds s1 line_theo p = Inr s2" "vel_ml s2 = v" "broad_ml s2 = 10"
    by blast
  have "line_vals_estimate s line_name = Inr ((amp, p, (p * broad_ml s1) / 300000), s2)"
    unfolding line_vals_estimate_def assms(2) option.case ap bind_err_Inr pd s1f(3,4) li(1) amp s2(1)
    ..
  then have "\<exists>r s'. line_vals_estimate s line_name = Inr (r, s') \<and> vel_ml s' = v \<and> broad_ml s' = 10"
    using s2 by blast
  then show ?thesis using k by (simp add: v_def)
qed

theorem analytic_prior_velocity_witness:
  "np_argmax (spectrum_normalized demo_session) = Inr 2 \<and>
   (\<exists>r s'. line_vals_estimate demo_session ''Halpha'' = Inr (r, s') \<and>
      vel_ml s' = \<bar>300000 * ((10000000 / 15000 - 656.28) / 656.28)\<bar> \<and> broad_ml s' = 10)"
  using analytic_prior_velocity[of demo_session "''Halpha''" "656.28" 2]
  by (simp add: demo_session_def line_dict_def np_argmax_def)

subsection \<open>The checks of the construction\<close>

lemma check_lines_message: "''Please submit a line name in the available list: '' @ [CHR 0x0A]
                  @ '' dict_keys('' @ repr_list (map fst line_dict) @ '')'' =
   ''Please submit a line name in the available list: '' @ [CHR 0x0A] @
   '' dict_keys(['Halpha', 'NII6583', 'NII6548', 'SII6716', 'SII6731', 'OII3726', 'OII3729', 'OIII4959', 'OIII5007', 'Hbeta'])''"
  by (simp add: repr_list_def line_dict_def)

lemma check_fitting_model_message: "''Please submit a fitting function name in the available list: ''
                  @ [CHR 0x0A] @ '' '' @ repr_list available_functions =
    ''Please submit a fitting function name in the available list: '' @ [CHR 0x0A] @
    '' ['gaussian', 'sinc', 'sincgauss']''"
  by (simp add: repr_list_def available_functions_def)

lemma apply_transmission_fields:
  "apply_transmission s = Inr s' \<Longrightarrow> \<exists>sp. s' = s\<lparr>spectrum := sp\<rparr>"
  by (auto simp: apply_transmission_def bind_err_def split: option.splits sum.splits)

lemma init_spectra_fields:
  assumes "init_spectra a = Inr s"
  shows "lines s = arg_lines a \<and> line_num s = length (arg_lines a) \<and>
         model_type s = arg_model_type a \<and> filter_name s = arg_filter a"
  using assms
  by (auto simp: init_spectra_def bind_err_def Let_def split: sum.splits if_splits
      dest!: apply_transmission_fields)

lemma restrict_wavelength_fields:
  "restrict_wavelength s g = (Inr (idx, s'), g') \<Longrightarrow>
   \<exists>a b. s' = s\<lparr>spectrum_restricted := a, axis_restricted := b\<rparr>"
  by (auto simp: restrict_wavelength_def bind_run_def ret_def lift_def
      split: sum.splits prod.splits)

lemma init_geometry_fields:
  "init_geometry a s = Inr s' \<Longrightarrow>
   lines s' = lines s \<and> line_num s' = line_num s \<and> model_type s' = model_type s \<and>
   filter_name s' = filter_name s"
  by (auto simp: init_geometry_def calculate_correction_def bind_err_def split: sum.splits)

lemma calculate_noise_fields:
  "calculate_noise s g = (Inr s', g') \<Longrightarrow> \<exists>n. s' = s\<lparr>noise := n\<rparr>"
  by (auto simp: calculate_noise_def bind_run_def ret_def lift_def
      split: sum.splits prod.splits)

lemma init_rest_fields:
  "init_rest a s = Inr s' \<Longrightarrow>
   lines s' = lines s \<and> line_num s' = line_num s \<and> model_type s' = model_type s \<and>
   filter_name s' = filter_name s \<and> sigma_rel s' = arg_sigma_rel a \<and> vel_rel s' = arg_vel_rel a \<and>
   ML_model s' = arg_ML_model a \<and> bayes_bool s' = arg_bayes_bool a \<and>
   uncertainty_bool s' = arg_uncertainty_bool a \<and>
   uncertainties s' = replicate (3 * line_num s + 1) 0"
  by (auto simp: init_rest_def calc_sinc_width_def bind_err_def Let_def split: sum.splits)

lemma init_checks_fields: "init_checks s = Inr s' \<Longrightarrow> s' = s"
  by (auto simp: init_checks_def bind_err_def split: sum.splits)

lemma Fit_init_fields:
  assumes "Fit_init a g = (Inr s, g')"
  shows "lines s = arg_lines a \<and> line_num s = length (arg_lines a) \<and>
         model_type s = arg_model_type a \<and> filter_name s = arg_filter a \<and>
         sigma_rel s = arg_sigma_rel a \<and> vel_rel s = arg_vel_rel a \<and>
         ML_model s = arg_ML_model a \<and> bayes_bool s = arg_bayes_bool a \<and>
         uncertainty_bool s = arg_uncertainty_bool a \<and>
         uncertainties s = replicate (3 * length (arg_lines a) + 1) 0 \<and>
         init_checks s = Inr s"
proof -
  from assms obtain s1 idx s2 g2 s3 s4 g4 s5 where
    st: "init_spectra a = Inr s1" "restrict_wavelength s1 g = (Inr (idx, s2), g2)"
      "init_geometry a s2 = Inr s3" "calculate_noise (s3\<lparr>noise := 0.01\<rparr>) g2 = (Inr s4, g4)"
      "init_rest a s4 = Inr s5" "init_checks s5 = Inr s"
    by (auto simp: Fit_init_def bind_run_def lift_def split: sum.splits prod.splits)
  have e: "s = s5" using st(6) by (simp add: init_checks_fields)
  from init_spectra_fields[OF st(1)] restrict_wavelength_fields[OF st(2)]
    init_geometry_fields[OF st(3)] calculate_noise_fields[OF st(4)] init_rest_fields[OF st(5)]
  show ?thesis using st(6) unfolding e by auto
qed

text \<open>
  C9, as the claim states it, fails: the line \<open>Hgamma\<close> is not in the catalog, and the
  construction ends with an exception whose message lists the lines of the catalog
  (such as \<open>Halpha\<close>) and does not report the offending name.
\<close>

theorem unknown_line_not_reported:
  "case Fit_init unknown_line_args fresh of
     (Inl (Exception msg), g) \<Rightarrow> mentions msg ''Halpha'' \<and> \<not> mentions msg ''Hgamma''
   | _ \<Rightarrow> False"
  by (simp add: unknown_line_args_def demo_args_def init_defs np_defs run_defs repr_list_def)

text \<open>
  C9, amended. \<open>__init__\<close> ends with the three checks. A construction that succeeds
  had every line name in the catalog, a model type among \<open>gaussian\<close>, \<open>sinc\<close> and
  \<open>sincgauss\<close>, and group lists as long as the line list. The checks raise, in this
  order: for a line name outside the catalog an exception whose message lists the
  catalog's names; for another model type one whose message lists the three model
  types; for a velocity-group list, then a width-group list, of another length one
  whose message reports the two lengths. They raise nothing when all three conditions
  hold.
\<close>

theorem construction_checks:
  "(Fit_init a g = (Inr s, g') \<longrightarrow>
      set (arg_lines a) \<subseteq> set (map fst line_dict) \<and>
      arg_model_type a \<in> set available_functions \<and>
      length (arg_vel_rel a) = length (arg_lines a) \<and>
      length (arg_sigma_rel a) = length (arg_lines a)) \<and>
   init_checks t =
     (if \<not> set (lines t) \<subseteq> set (map fst line_dict) then
        Inl (Exception (''Please submit a line name in the available list: '' @ [CHR 0x0A] @
          '' dict_keys(['Halpha', 'NII6583', 'NII6548', 'SII6716', 'SII6731', 'OII3726', 'OII3729', 'OIII4959', 'OIII5007', 'Hbeta'])''))
      else if model_type t \<notin> set available_functions then
        Inl (Exception (''Please submit a fitting function name in the available list: '' @
          [CHR 0x0A] @ '' ['gaussian', 'sinc', 'sincgauss']''))
      else if length (vel_rel t) \<noteq> length (lines t) then
        Inl (Exception (''The argument vel_rel has '' @ show_nat (length (vel_rel t))
               @ '' arguments, but it should have '' @ show_nat (length (lines t)) @ '' arguments''))
      else if length (sigma_rel t) \<noteq> length (lines t) then
        Inl (Exception (''The argument sigma_rel has '' @ show_nat (length (sigma_rel t))
               @ '' arguments, but it should have '' @ show_nat (length (lines t)) @ '' arguments''))
      else Inr t)"
proof (intro conjI impI)
  assume ok: "Fit_init a g = (Inr s, g')"
  note f = Fit_init_fields[OF ok]
  have c: "check_lines s = Inr ()" "check_fitting_model s = Inr ()" "check_lengths s = Inr ()"
    using f by (auto simp: init_checks_def bind_err_def split: sum.splits)
  show "set (arg_lines a) \<subseteq> set (map fst line_dict)"
    using c(1) f by (simp add: check_lines_def split: if_splits)
  show "arg_model_type a \<in> set available_functions"
    using c(2) f by (simp add: check_fitting_model_def split: if_splits)
  show "length (arg_vel_rel a) = length (arg_lines a)"
    using c(3) f by (simp add: check_lengths_def split: if_splits)
  show "length (arg_sigma_rel a) = length (arg_lines a)"
    using c(3) f by (simp add: check_lengths_def split: if_splits)
next
  show "init_checks t =
     (if \<not> set (lines t) \<subseteq> set (map fst line_dict) then
        Inl (Exception (''Please submit a line name in the available list: '' @ [CHR 0x0A] @
          '' dict_keys(['Halpha', 'NII6583', 'NII6548', 'SII6716', 'SII6731', 'OII3726', 'OII3729', 'OIII4959', 'OIII5007', 'Hbeta'])''))
      else if model_type t \<notin> set available_functions then
        Inl (Exception (''Please submit a fitting function name in the available list: '' @
          [CHR 0x0A] @ '' ['gaussian', 'sinc', 'sincgauss']''))
      else if length (vel_rel t) \<noteq> length (lines t) then
        Inl (Exception (''The argument vel_rel has '' @ show_nat (length (vel_rel t))
               @ '' arguments, but it should have '' @ show_nat (length (lines t)) @ '' arguments''))
      else if length (sigma_rel t) \<noteq> length (lines t) then
        Inl (Exception (''The argument sigma_rel has '' @ show_nat (length (sigma_rel t))
               @ '' arguments, but it should have '' @ show_nat (length (lines t)) @ '' arguments''))
      else Inr t)"
    unfolding init_checks_def check_lines_def check_fitting_model_def check_lengths_def
      check_lines_message check_fitting_model_message
    by (simp add: bind_err_def)
qed

theorem construction_checks_witness:
  "Fit_init demo_args fresh = (Inr demo_session, demo_globals) \<and>
   set (arg_lines demo_args) \<subseteq> set (map fst line_dict) \<and>
   arg_model_type demo_args \<in> set available_functions \<and>
   length (arg_vel_rel demo_args) = length (arg_lines demo_args) \<and>
   length (arg_sigma_rel demo_args) = length (arg_lines demo_args) \<and>
   init_checks (demo_session\<lparr>vel_rel := [1, 2, 3]\<rparr>) =
     Inl (Exception ''The argument vel_rel has 3 arguments, but it should have 1 arguments'')"
proof -
  note t = construction_checks[of demo_args fresh demo_session demo_globals
      "demo_session\<lparr>vel_rel := [1, 2, 3]\<rparr>"]
  have a: "set (arg_lines demo_args) \<subseteq> set (map fst line_dict) \<and>
      arg_model_type demo_args \<in> set available_functions \<and>
      length (arg_vel_rel demo_args) = length (arg_lines demo_args) \<and>
      length (arg_sigma_rel demo_args) = length (arg_lines demo_args)"
    using t[THEN conjunct1] Fit_init_demo by (rule mp)
  have b: "init_checks (demo_session\<lparr>vel_rel := [1, 2, 3]\<rparr>) =
     Inl (Exception ''The argument vel_rel has 3 arguments, but it should have 1 arguments'')"
    using t[THEN conjunct2]
    by (simp add: demo_session_def line_dict_def available_functions_def)
  show ?thesis using a b Fit_init_demo by blast
qed

subsection \<open>An unsupported filter\<close>

text \<open>
  C4. The filter \<open>SN4\<close> is not supported. In a process that has built a session with the
  filter SN3 before (its globals are \<open>demo_globals\<close>), the construction does not fail:
  both methods print the message, assign no bounds and go on with the bounds 14300 and
  14500 that \<open>calculate_noise\<close> of the earlier session left, so the session is built
  with the window \<open>[0, 1)\<close>. In a fresh process the construction ends with a
  \<open>NameError\<close> for the unassigned global, after the message has been printed; no
  configuration error with the offending filter name is raised in either case.
\<close>

theorem unsupported_filter_proceeds:
  "(case Fit_init unsupported_args demo_globals of
      (Inr s, g) \<Rightarrow> filter_name s = ''SN4'' \<and> spectrum_restricted s = [1 / 4] \<and>
         stdout g = [unsupported_message, unsupported_message] \<and>
         bound_lower g = Some 14300 \<and> bound_upper g = Some 14500
    | (Inl e, g) \<Rightarrow> False) \<and>
   Fit_init unsupported_args fresh =
     (Inl (NameError ''name 'bound_lower' is not defined''), fresh\<lparr>stdout := [unsupported_message]\<rparr>)"
  by (simp add: unsupported_args_def demo_args_def demo_globals_def init_defs np_defs run_defs)

subsection \<open>The result of a fit\<close>

lemmas fit_defs = fit_def fit_priors_def calculate_params_def cont_estimate_def set_last_def
  setitem_def initial_step_def get_last_def unscale_def unscale_step_def scale_at_def scale_last_def
  set_fit_vector_def butlast_slice_def fit_statistic_def calc_chisquare_def
  line_step_def make_fit_dict_def

lemma fit_demo:
  "fit demo_collab demo_session demo_globals = (Inr (demo_fit_dict, demo_fit_session), window_globals)"
  by (simp add: demo_collab_def demo_session_def demo_globals_def fit_defs prior_defs np_defs
      run_defs builder_defs line_dict_def restrict_wavelength_def vel_constraints_nil Let_def
      numeral_3_eq_3 numeral_2_eq_2 demo_fit_dict_def demo_fit_session_def window_globals_def)

text \<open>
  C8, as the claim states it, fails: in the fit of \<open>demo_session\<close> the chi-square
  statistic is \<open>1 / 4\<close> and the reduced one \<open>1 / 12\<close>. The returned dictionary holds
  \<open>1 / 12\<close> under the key \<open>chi2\<close>; no entry holds \<open>1 / 4\<close>, and no key is \<open>noise\<close>.
\<close>

theorem fit_dict_without_chi_square:
  "case fit demo_collab demo_session demo_globals of
     (Inr (d, s'), g') \<Rightarrow>
       (case fit_statistic s' g' of
          (Inr ((chi_sqr, red_chi_sqr), s''), g'') \<Rightarrow>
            chi_sqr = 1 / 4 \<and> red_chi_sqr = 1 / 12 \<and>
            map_of d ''chi2'' = Some (Num (1 / 12)) \<and>
            list_all (\<lambda>(key, v). v \<noteq> Num (1 / 4)) d \<and>
            list_all (\<lambda>(key, v). key \<noteq> ''noise'') d
        | (Inl e, g'') \<Rightarrow> False)
   | (Inl e, g') \<Rightarrow> False"
  unfolding fit_demo
  by (simp add: demo_fit_dict_def demo_fit_session_def demo_session_def window_globals_def
      fit_statistic_def calc_chisquare_def restrict_wavelength_def np_defs run_defs Let_def
      power2_eq_square)

text \<open>
  C8, amended. For every completed fit, the returned dictionary has exactly the
  sixteen keys below. It holds the reduced chi-square statistic, under the key \<open>chi2\<close>,
  and not the chi-square statistic itself, alongside the best-fit parameter vector,
  the uncertainties, the model curve, the correction factor and the continuum value
  (the last parameter); it has no entry for the noise estimate.
\<close>

theorem fit_dict_contents:
  assumes "fit C s g = (Inr (d, s'), g')"
  shows "map fst d =
      [''fit_sol'', ''fit_uncertainties'', ''fit_vector'', ''fit_axis'', ''amplitudes'',
       ''fluxes'', ''flux_errors'', ''chi2'', ''velocities'', ''sigmas'', ''vels_errors'',
       ''sigmas_errors'', ''axis_step'', ''corr'', ''continuum'', ''scale''] \<and>
    (\<exists>s3 g3 chi_sqr red_chi_sqr.
        fit_statistic s3 g3 = (Inr ((chi_sqr, red_chi_sqr), s'), g') \<and>
        map_of d ''chi2'' = Some (Num red_chi_sqr)) \<and>
    map_of d ''fit_sol'' = Some (Vec (fit_sol s')) \<and>
    map_of d ''fit_uncertainties'' = Some (Vec (uncertainties s')) \<and>
    map_option Vec (fit_vector s') = map_of d ''fit_vector'' \<and>
    map_of d ''corr'' = Some (Num (correction_factor s')) \<and>
    map_option Num (case get_last (fit_sol s') of Inr c \<Rightarrow> Some c | Inl e \<Rightarrow> None) =
      map_of d ''continuum''"
proof -
  from assms obtain s3 g3 r ls c fv where
    st: "fit_statistic s3 g3 = (Inr (r, s'), g')" "get_last (fit_sol s') = Inr c"
      "fit_vector s' = Some fv" "d = make_fit_dict s' fv ls (snd r) c"
    by (auto simp: fit_def bind_run_def lift_def ret_def throw_def
        split: sum.splits prod.splits option.splits)
  have "fit_statistic s3 g3 = (Inr ((fst r, snd r), s'), g')" using st(1) by simp
  then have "\<exists>s3 g3 chi_sqr red_chi_sqr.
        fit_statistic s3 g3 = (Inr ((chi_sqr, red_chi_sqr), s'), g') \<and>
        map_of d ''chi2'' = Some (Num red_chi_sqr)"
    unfolding st(4) by (intro exI conjI) (assumption, simp add: make_fit_dict_def)
  then show ?thesis
    by (simp add: st(2,3,4) make_fit_dict_def)
qed

theorem fit_dict_contents_witness:
  "fit demo_collab demo_session demo_globals = (Inr (demo_fit_dict, demo_fit_session), window_globals) \<and>
   map fst demo_fit_dict =
      [''fit_sol'', ''fit_uncertainties'', ''fit_vector'', ''fit_axis'', ''amplitudes'',
       ''fluxes'', ''flux_errors'', ''chi2'', ''velocities'', ''sigmas'', ''vels_errors'',
       ''sigmas_errors'', ''axis_step'', ''corr'', ''continuum'', ''scale''] \<and>
   map_of demo_fit_dict ''fit_sol'' = Some (Vec (fit_sol demo_fit_session))"
  using fit_dict_contents[OF fit_demo] fit_demo by simp

subsection \<open>Uncertainties that are never estimated\<close>

lemma fit_priors_kept: "fit_priors C s = Inr s' \<Longrightarrow> kept s' = kept s"
  by (auto simp: fit_priors_def interpolate_spectrum_def estimate_priors_ML_def bind_err_def kept_def
      split: sum.splits if_splits option.splits ml_output.splits)

lemma analytic_prior_kept: "analytic_prior s t = Inr s' \<Longrightarrow> kept s' = kept s"
  by (auto simp: analytic_prior_def bind_err_def kept_def split: sum.splits if_splits)

lemma mdn_bounds_kept: "mdn_bounds s t p = Inr s' \<Longrightarrow> kept s' = kept s"
  by (auto simp: mdn_bounds_def bind_err_def kept_def split: sum.splits if_splits)

lemma line_vals_estimate_kept: "line_vals_estimate s n = Inr (r, s') \<Longrightarrow> kept s' = kept s"
  by (auto simp: line_vals_estimate_def bind_err_def
      split: sum.splits option.splits dest!: analytic_prior_kept mdn_bounds_kept)

lemma initial_step_kept:
  "initial_step m (i, b, s) = Inr (i', b', s') \<Longrightarrow> kept s' = kept s"
  by (auto simp: initial_step_def bind_err_def split: sum.splits prod.splits
      dest!: line_vals_estimate_kept)

lemma initial_loop_kept:
  "fold_err initial_step ms (i, b, s) = Inr (i', b', s') \<Longrightarrow> kept s' = kept s"
proof (induction ms arbitrary: i b s)
  case Nil
  then show ?case by simp
next
  case (Cons m ms)
  from Cons.prems obtain i1 b1 s1 where
    st: "initial_step m (i, b, s) = Inr (i1, b1, s1)"
      "fold_err initial_step ms (i1, b1, s1) = Inr (i', b', s')"
    by (auto simp: bind_err_def split: sum.splits)
  show ?case using Cons.IH[OF st(2)] initial_step_kept[OF st(1)] by simp
qed

lemma scale_at_fixed:
  "z * c = z \<Longrightarrow> scale_at i c (replicate n z) = Inr u \<Longrightarrow> u = replicate n z"
  by (auto simp: scale_at_def list_eq_iff_nth_eq nth_list_update split: if_splits)

lemma scale_last_fixed:
  "z * c = z \<Longrightarrow> scale_last c (replicate n z) = Inr u \<Longrightarrow> u = replicate n z"
  by (auto simp: scale_last_def dest: scale_at_fixed split: if_splits)

lemma unscale_loop_fixed:
  "z * sc = z \<Longrightarrow> fold_err (unscale_step sc) ms (p, replicate n z) = Inr (p', u') \<Longrightarrow>
   u' = replicate n z"
proof (induction ms arbitrary: p)
  case Nil
  then show ?case by simp
next
  case (Cons m ms)
  from Cons.prems(2) obtain p1 u1 where
    st: "unscale_step sc m (p, replicate n z) = Inr (p1, u1)"
      "fold_err (unscale_step sc) ms (p1, u1) = Inr (p', u')"
    by (auto simp: bind_err_def split: sum.splits)
  have "u1 = replicate n z"
    using st(1) Cons.prems(1)
    by (auto simp: unscale_step_def bind_err_def dest: scale_at_fixed split: sum.splits)
  then show ?case using Cons.IH[OF Cons.prems(1)] st(2) by simp
qed

lemma unscale_fixed:
  assumes "z * sc = z" "unscale m sc (p, replicate n z) = Inr (p', u')"
  shows "u' = replicate n z"
proof -
  from assms(2) obtain p1 u1 where
    st: "fold_err (unscale_step sc) [0..<m] (p, replicate n z) = Inr (p1, u1)"
      "scale_last sc u1 = Inr u'"
    by (auto simp: unscale_def bind_err_def split: sum.splits prod.splits)
  have "u1 = replicate n z" by (rule unscale_loop_fixed[OF assms(1) st(1)])
  then show ?thesis using st(2) assms(1) by (auto dest: scale_last_fixed)
qed

lemma unscale_zeros:
  assumes "unscale m sc (p, replicate n (0 :: real)) = Inr (p', u')"
  shows "u' = replicate n 0"
  using unscale_fixed[of 0 sc m p n p' u'] assms by simp

lemma set_fit_vector_kept: "set_fit_vector C s = Inr s' \<Longrightarrow> kept s' = kept s"
  by (auto simp: set_fit_vector_def bind_err_def kept_def split: sum.splits if_splits)

lemma calculate_params_kept:
  assumes "calculate_params C s g = (Inr s', g')" "\<not> uncertainty_bool s"
    "uncertainties s = replicate n 0"
  shows "kept s' = kept s"
proof -
  from assms(1) obtain initial0 initial bounds' s1 g2 parameters s3 g3 p u where
    st: "fold_err initial_step [0..<line_num s] (initial0, [], s) = Inr (initial, bounds', s1)"
      "(if uncertainty_bool (s1\<lparr>inital_values := Some initial\<rparr>)
        then bind_run (hessian_uncertainties C (s1\<lparr>inital_values := Some initial\<rparr>) parameters)
               (\<lambda>u. ret (s1\<lparr>inital_values := Some initial, uncertainties := u\<rparr>))
        else ret (s1\<lparr>inital_values := Some initial\<rparr>)) g2 = (Inr s3, g3)"
      "unscale (line_num s3) (spectrum_scale s3) (parameters, uncertainties s3) = Inr (p, u)"
      "set_fit_vector C (s3\<lparr>uncertainties := u, fit_sol := p\<rparr>) = Inr s'"
    by (auto simp: calculate_params_def bind_run_def lift_def Let_def
        split: sum.splits prod.splits)
  have k1: "kept s1 = kept s" by (rule initial_loop_kept[OF st(1)])
  then have nb: "\<not> uncertainty_bool s1" using assms(2) by (simp add: kept_def)
  have s3: "s3 = s1\<lparr>inital_values := Some initial\<rparr>" using st(2) nb by (simp add: ret_def)
  have u3: "uncertainties s3 = replicate n 0" using k1 assms(3) by (simp add: s3 kept_def)
  have u: "u = replicate n 0" using st(3) unfolding u3 by (rule unscale_zeros)
  from set_fit_vector_kept[OF st(4)] show ?thesis using u k1 assms(3) by (simp add: kept_def s3)
qed

lemma fit_statistic_kept:
  "fit_statistic s g = (Inr (r, s'), g') \<Longrightarrow> kept s' = kept s \<and> fit_sol s' = fit_sol s"
  by (auto simp: fit_statistic_def calc_chisquare_def bind_run_def lift_def ret_def throw_def
      Let_def kept_def split: option.splits sum.splits prod.splits dest!: restrict_wavelength_fields)

lemma fit_dict_uncertainties:
  "map_of (make_fit_dict s fv ls r c) ''fit_uncertainties'' = Some (Vec (uncertainties s))"
  by (simp add: make_fit_dict_def)

text \<open>
  C10, as the claim states it, fails: for a spectrum that holds \<open>inf\<close> the scale
  \<open>np.max(self.spectrum)\<close> of line 509 is \<open>inf\<close>, and lines 474 to 479 multiply the
  zeros of \<open>__init__\<close> by it. For one line, on the vector the minimiser returned, the
  rescaling leaves the uncertainties \<open>[nan, 0, 0, nan]\<close>, which is not the all-zero
  vector.
\<close>

theorem zeros_times_inf:
  "unscale 1 PInf ([Fin (1 / 2), Fin 15000, Fin (1 / 2), Fin (1 / 2)], replicate (3 * 1 + 1) (Fin 0)) =
     Inr ([PInf, Fin 15000, Fin (1 / 2), PInf], [NaN, Fin 0, Fin 0, NaN])"
  by (simp add: unscale_def unscale_step_def scale_at_def scale_last_def bind_err_def
      numeral_3_eq_3)

text \<open>
  C10, amended. For every fit run with uncertainty estimation and Bayesian refinement
  disabled and a finite scale \<open>np.max(self.spectrum)\<close>, the uncertainty vector in the
  returned result is the all-zero vector of length \<open>3 * lineCount + 1\<close>. In the model
  of the methods every number is finite: a session built by \<open>__init__\<close> with both flags
  off has all-zero uncertainties of that length; every fit of such a session that
  completes returns that vector under \<open>fit_uncertainties\<close> and leaves the session as it
  was in this respect, so the same holds for every later fit. On numpy's floats, the
  rescaling of lines 474 to 479 by a finite scale keeps a vector of zeros.
\<close>

theorem fit_uncertainties_stay_zero:
  "(Fit_init a g0 = (Inr s0, g1) \<and> \<not> arg_uncertainty_bool a \<and> \<not> arg_bayes_bool a \<longrightarrow>
      never_estimated s0 \<and> line_num s0 = length (arg_lines a)) \<and>
   (never_estimated s \<and> fit C s g = (Inr (d, s'), g') \<longrightarrow>
      map_of d ''fit_uncertainties'' = Some (Vec (replicate (3 * line_num s + 1) 0)) \<and>
      never_estimated s' \<and> line_num s' = line_num s) \<and>
   (unscale n (Fin c) (p, replicate m (Fin 0)) = Inr (p', u') \<longrightarrow> u' = replicate m (Fin 0))"
proof (intro conjI impI)
  assume a: "Fit_init a g0 = (Inr s0, g1) \<and> \<not> arg_uncertainty_bool a \<and> \<not> arg_bayes_bool a"
  then have f: "line_num s0 = length (arg_lines a)"
    "uncertainties s0 = replicate (3 * length (arg_lines a) + 1) 0"
    "uncertainty_bool s0 = arg_uncertainty_bool a" "bayes_bool s0 = arg_bayes_bool a"
    using Fit_init_fields[of a g0 s0 g1] by simp_all
  show "never_estimated s0" using f a by (simp add: never_estimated_def)
  show "line_num s0 = length (arg_lines a)" by (rule f(1))
next
  assume b: "never_estimated s \<and> fit C s g = (Inr (d, s'), g')"
  then have z: "uncertainties s = replicate (3 * line_num s + 1) 0" "\<not> uncertainty_bool s"
    "\<not> bayes_bool s"
    by (simp_all add: never_estimated_def)
  from b obtain s1 s2 g2 s3 g3 r ls c fv where
    st: "fit_priors C s = Inr s1" "calculate_params C s1 g = (Inr s2, g2)"
      "(if bayes_bool s2 then lift (fit_Bayes C s2) else ret s2) g2 = (Inr s3, g3)"
      "fit_statistic s3 g3 = (Inr (r, s'), g')"
      "d = make_fit_dict s' fv ls (snd r) c"
    by (auto simp: fit_def bind_run_def lift_def ret_def throw_def
        split: sum.splits prod.splits option.splits)
  have k1: "kept s1 = kept s" by (rule fit_priors_kept[OF st(1)])
  have z1: "uncertainties s1 = replicate (3 * line_num s + 1) 0" "\<not> uncertainty_bool s1"
    using k1 z by (simp_all add: kept_def)
  have k2: "kept s2 = kept s" using calculate_params_kept[OF st(2) z1(2) z1(1)] k1 by simp
  then have "\<not> bayes_bool s2" using z(3) by (simp add: kept_def)
  then have s3: "s3 = s2" using st(3) by (simp add: ret_def)
  have k4: "kept s' = kept s" using fit_statistic_kept[OF st(4)] k2 by (simp add: s3)
  show "map_of d ''fit_uncertainties'' = Some (Vec (replicate (3 * line_num s + 1) 0))"
    using k4 z(1) by (simp add: st(5) fit_dict_uncertainties kept_def)
  show "never_estimated s'" using k4 z by (simp add: never_estimated_def kept_def)
  show "line_num s' = line_num s" using k4 by (simp add: kept_def)
next
  assume "unscale n (Fin c) (p, replicate m (Fin 0)) = Inr (p', u')"
  then show "u' = replicate m (Fin 0)" by (rule unscale_fixed[rotated]) simp
qed

theorem fit_uncertainties_stay_zero_witness:
  "Fit_init demo_args fresh = (Inr demo_session, demo_globals) \<and>
   \<not> arg_uncertainty_bool demo_args \<and> \<not> arg_bayes_bool demo_args \<and>
   never_estimated demo_session \<and>
   fit demo_collab demo_session demo_globals = (Inr (demo_fit_dict, demo_fit_session), window_globals) \<and>
   map_of demo_fit_dict ''fit_uncertainties'' = Some (Vec [0, 0, 0, 0]) \<and>
   never_estimated demo_fit_session \<and>
   unscale 1 (Fin 4) ([Fin (1 / 2), Fin 15000, Fin (1 / 2), Fin (1 / 2)], replicate 4 (Fin 0)) =
     Inr ([Fin 2, Fin 15000, Fin (1 / 2), Fin 2], replicate 4 (Fin 0))"
proof -
  note t = fit_uncertainties_stay_zero[of demo_args fresh demo_session demo_globals
      demo_session demo_collab demo_globals demo_fit_dict demo_fit_session window_globals
      1 4 "[Fin (1 / 2), Fin 15000, Fin (1 / 2), Fin (1 / 2)]" 4
      "[Fin 2, Fin 15000, Fin (1 / 2), Fin 2]" "replicate 4 (Fin 0)"]
  have b: "\<not> arg_uncertainty_bool demo_args" "\<not> arg_bayes_bool demo_args"
    by (simp_all add: demo_args_def)
  have n: "never_estimated demo_session"
    using t[THEN conjunct1] Fit_init_demo b by blast
  have r: "map_of demo_fit_dict ''fit_uncertainties'' =
             Some (Vec (replicate (3 * line_num demo_session + 1) 0)) \<and>
           never_estimated demo_fit_session"
    using t[THEN conjunct2, THEN conjunct1] n fit_demo by blast
  have "replicate (3 * line_num demo_session + 1) (0 :: real) = [0, 0, 0, 0]"
    by (simp add: demo_session_def numeral_3_eq_3)
  then have r': "map_of demo_fit_dict ''fit_uncertainties'' = Some (Vec [0, 0, 0, 0])"
    using r by simp
  have u: "unscale 1 (Fin 4) ([Fin (1 / 2), Fin 15000, Fin (1 / 2), Fin (1 / 2)], replicate 4 (Fin 0)) =
     Inr ([Fin 2, Fin 15000, Fin (1 / 2), Fin 2], replicate 4 (Fin 0))"
    by (simp add: unscale_def unscale_step_def scale_at_def scale_last_def bind_err_def
        numeral_3_eq_3 eval_nat_numeral)
  show ?thesis using b n r r' Fit_init_demo fit_demo u by blast
qed

subsection \<open>The window of a session that the construction has built\<close>








end
